theory Spec2Isabelle
  imports Main
begin

section \<open>Data model of channels_presence/models.py\<close>

text \<open>
  The two Django models become records whose fields are the database columns.  A table is
  the list of its rows in insertion order; the primary keys come from a counter kept with
  the table.  Timestamps are integers counting microseconds, the resolution of Python's
  \<^verbatim>\<open>datetime\<close>.
\<close>

record room =
  room_id :: nat
  room_channel_name :: string

record presence =
  presence_id :: nat
  presence_room :: nat
  presence_channel_name :: string
  presence_user :: "nat option"
  presence_last_seen :: int

text \<open>
  The \<^verbatim>\<open>user\<close> argument of the join operations is \<^verbatim>\<open>None\<close>, an instance of the
  project's user model (whose \<^verbatim>\<open>is_authenticated\<close> is always true) or Django's
  \<^verbatim>\<open>AnonymousUser\<close> (always false, no primary key).
\<close>

datatype user = User nat | AnonymousUser

fun is_authenticated :: "user \<Rightarrow> bool" where
  "is_authenticated (User k) = True"
| "is_authenticated AnonymousUser = False"

fun user_pk :: "user \<Rightarrow> nat option" where
  "user_pk (User k) = Some k"
| "user_pk AnonymousUser = None"

text \<open>
  The keyword arguments of \<^verbatim>\<open>presence_changed.send\<close>: the room, and \<^verbatim>\<open>added\<close>,
  \<^verbatim>\<open>removed\<close>, \<^verbatim>\<open>bulk_change\<close> with their defaults \<^verbatim>\<open>None\<close>, \<^verbatim>\<open>None\<close>,
  \<^verbatim>\<open>False\<close>.
\<close>

record change_event =
  ev_room :: room
  ev_added :: "presence option"
  ev_removed :: "presence option"
  ev_bulk_change :: bool

text \<open>
  Everything the module does outside the database is appended to a trace: the calls of the
  channel layer and the signals sent.  The channel layer is the project's configured
  backend; its calls are recorded and return.
\<close>

datatype effect =
    GroupAdd string string
  | GroupDiscard string string
  | PresenceChanged change_event

record state =
  rooms :: "room list"
  presences :: "presence list"
  room_seq :: nat
  presence_seq :: nat
  trace :: "effect list"

datatype error =
    DoesNotExist
  | MultipleObjectsReturned
  | IntegrityError
  | ReceiverError
  | SynchronousOnlyOperation

text \<open>
  What the code reads from its surroundings: the receivers connected to the signal
  \<^verbatim>\<open>presence_changed\<close> (each returns or raises on an event), the optional setting
  \<^verbatim>\<open>CHANNELS_PRESENCE_MAX_AGE\<close>, and the environment switch
  \<^verbatim>\<open>DJANGO_ALLOW_ASYNC_UNSAFE\<close> that lets blocking database calls run inside an event loop.
\<close>

datatype outcome = Returns | Raises

type_synonym receiver = "change_event \<Rightarrow> outcome"

record env =
  receivers :: "receiver list"
  CHANNELS_PRESENCE_MAX_AGE :: "int option"
  DJANGO_ALLOW_ASYNC_UNSAFE :: bool

section \<open>The database operations the code calls\<close>

text \<open>\<^verbatim>\<open>QuerySet.get\<close>: the one row matching, or an exception.\<close>

definition objects_get :: "('a \<Rightarrow> bool) \<Rightarrow> 'a list \<Rightarrow> error + 'a" where
  "objects_get P rows =
     (case filter P rows of
        [] \<Rightarrow> Inl DoesNotExist
      | [x] \<Rightarrow> Inr x
      | x # y # zs \<Rightarrow> Inl MultipleObjectsReturned)"

text \<open>
  \<^verbatim>\<open>INSERT\<close> into the room table: \<^verbatim>\<open>channel_name\<close> is declared \<^verbatim>\<open>unique=True\<close>.
\<close>

definition room_create :: "string \<Rightarrow> state \<Rightarrow> (error + room) \<times> state" where
  "room_create name st =
     (if \<exists>r \<in> set (rooms st). room_channel_name r = name then (Inl IntegrityError, st)
      else
        let r = \<lparr>room_id = room_seq st, room_channel_name = name\<rparr>
        in (Inr r, st\<lparr>rooms := rooms st @ [r], room_seq := Suc (room_seq st)\<rparr>))"

text \<open>
  \<^verbatim>\<open>INSERT\<close> into the presence table: the foreign key \<^verbatim>\<open>room\<close> must name a stored
  room, and \<^verbatim>\<open>unique_together = [("room", "channel_name")]\<close>.  The column
  \<^verbatim>\<open>last_seen\<close> takes its default \<^verbatim>\<open>now\<close>.
\<close>

definition presence_create ::
  "room \<Rightarrow> string \<Rightarrow> nat option \<Rightarrow> int \<Rightarrow> state \<Rightarrow> (error + presence) \<times> state" where
  "presence_create r cn u now st =
     (if \<not> (\<exists>r' \<in> set (rooms st). room_id r' = room_id r) then (Inl IntegrityError, st)
      else if \<exists>p \<in> set (presences st).
                presence_room p = room_id r \<and> presence_channel_name p = cn
      then (Inl IntegrityError, st)
      else
        let p = \<lparr>presence_id = presence_seq st, presence_room = room_id r,
                 presence_channel_name = cn, presence_user = u, presence_last_seen = now\<rparr>
        in (Inr p, st\<lparr>presences := presences st @ [p],
                       presence_seq := Suc (presence_seq st)\<rparr>))"

text \<open>
  \<^verbatim>\<open>QuerySet.get_or_create\<close>: \<^verbatim>\<open>get\<close>; on \<^verbatim>\<open>DoesNotExist\<close> create; when the
  creation fails with \<^verbatim>\<open>IntegrityError\<close>, \<^verbatim>\<open>get\<close> once more and raise the
  \<^verbatim>\<open>IntegrityError\<close> when there is still no such row.
\<close>

definition get_or_create ::
  "('a \<Rightarrow> bool) \<Rightarrow> (state \<Rightarrow> 'a list) \<Rightarrow> (state \<Rightarrow> (error + 'a) \<times> state) \<Rightarrow> state
     \<Rightarrow> (error + 'a \<times> bool) \<times> state" where
  "get_or_create P table create st =
     (case objects_get P (table st) of
        Inr x \<Rightarrow> (Inr (x, False), st)
      | Inl DoesNotExist \<Rightarrow>
          (case create st of
             (Inr x, st') \<Rightarrow> (Inr (x, True), st')
           | (Inl IntegrityError, st') \<Rightarrow>
               (case objects_get P (table st') of
                  Inr x \<Rightarrow> (Inr (x, False), st')
                | Inl DoesNotExist \<Rightarrow> (Inl IntegrityError, st')
                | Inl e \<Rightarrow> (Inl e, st'))
           | (Inl e, st') \<Rightarrow> (Inl e, st'))
      | Inl e \<Rightarrow> (Inl e, st))"

section \<open>Channel layer and signal\<close>

definition group_add :: "string \<Rightarrow> string \<Rightarrow> state \<Rightarrow> state" where
  "group_add g c st = st\<lparr>trace := trace st @ [GroupAdd g c]\<rparr>"

definition group_discard :: "string \<Rightarrow> string \<Rightarrow> state \<Rightarrow> state" where
  "group_discard g c st = st\<lparr>trace := trace st @ [GroupDiscard g c]\<rparr>"

text \<open>
  \<^verbatim>\<open>Signal.send\<close> calls the receivers in turn; an exception of a receiver ends the
  dispatch and propagates to the sender.
\<close>

fun send :: "receiver list \<Rightarrow> change_event \<Rightarrow> error + unit" where
  "send [] ev = Inr ()"
| "send (f # fs) ev = (case f ev of Raises \<Rightarrow> Inl ReceiverError | Returns \<Rightarrow> send fs ev)"

definition broadcast_changed ::
  "env \<Rightarrow> room \<Rightarrow> presence option \<Rightarrow> presence option \<Rightarrow> bool \<Rightarrow> state
     \<Rightarrow> (error + unit) \<times> state" where
  "broadcast_changed e self added removed bulk_change st =
     (let ev = \<lparr>ev_room = self, ev_added = added, ev_removed = removed,
                ev_bulk_change = bulk_change\<rparr>
      in (send (receivers e) ev, st\<lparr>trace := trace st @ [PresenceChanged ev]\<rparr>))"

section \<open>class Room\<close>

definition authed_user :: "user option \<Rightarrow> nat option" where
  "authed_user u =
     (case u of
        None \<Rightarrow> None
      | Some x \<Rightarrow> if is_authenticated x then user_pk x else None)"

definition add_presence ::
  "env \<Rightarrow> room \<Rightarrow> string \<Rightarrow> user option \<Rightarrow> int \<Rightarrow> state \<Rightarrow> (error + unit) \<times> state" where
  "add_presence e self channel_name u now st =
     (case get_or_create
             (\<lambda>p. presence_room p = room_id self \<and> presence_channel_name p = channel_name
                  \<and> presence_user p = authed_user u)
             presences
             (presence_create self channel_name (authed_user u) now) st of
        (Inl err, st1) \<Rightarrow> (Inl err, st1)
      | (Inr (p, created), st1) \<Rightarrow>
          if created
          then broadcast_changed e self (Some p) None False
                 (group_add (room_channel_name self) channel_name st1)
          else (Inr (), st1))"

text \<open>\<^verbatim>\<open>Model.delete\<close>: the row with the instance's primary key goes.\<close>

definition presence_delete :: "presence \<Rightarrow> state \<Rightarrow> state" where
  "presence_delete p st =
     st\<lparr>presences := filter (\<lambda>q. presence_id q \<noteq> presence_id p) (presences st)\<rparr>"

definition remove_presence ::
  "env \<Rightarrow> room \<Rightarrow> string option \<Rightarrow> presence option \<Rightarrow> state \<Rightarrow> (error + unit) \<times> state" where
  "remove_presence e self channel_name presence0 st =
     (case (case presence0 of
              Some p \<Rightarrow> Inr p
            | None \<Rightarrow>
                objects_get
                  (\<lambda>p. presence_room p = room_id self
                       \<and> Some (presence_channel_name p) = channel_name)
                  (presences st)) of
        Inl DoesNotExist \<Rightarrow> (Inr (), st)
      | Inl err \<Rightarrow> (Inl err, st)
      | Inr p \<Rightarrow>
          broadcast_changed e self None (Some p) False
            (presence_delete p
               (group_discard (room_channel_name self) (presence_channel_name p) st)))"

definition timedelta_seconds :: "int \<Rightarrow> int" where
  "timedelta_seconds s = s * 1000000"

definition room_prune_presences ::
  "env \<Rightarrow> room \<Rightarrow> int option \<Rightarrow> int \<Rightarrow> state \<Rightarrow> (error + unit) \<times> state" where
  "room_prune_presences e self age_in_seconds now st =
     (let age = (case age_in_seconds of
                   None \<Rightarrow> (case CHANNELS_PRESENCE_MAX_AGE e of None \<Rightarrow> 60 | Some a \<Rightarrow> a)
                 | Some a \<Rightarrow> a);
          stale = (\<lambda>p. presence_room p = room_id self
                        \<and> presence_last_seen p < now - timedelta_seconds age);
          num_deleted = length (filter stale (presences st));
          st1 = st\<lparr>presences := filter (\<lambda>p. \<not> stale p) (presences st)\<rparr>
      in if num_deleted > 0 then broadcast_changed e self None None True st1
         else (Inr (), st1))"

definition get_users :: "room \<Rightarrow> state \<Rightarrow> nat list" where
  "get_users self st =
     remdups (concat (map (\<lambda>p. case presence_user p of None \<Rightarrow> [] | Some k \<Rightarrow> [k])
                          (filter (\<lambda>p. presence_room p = room_id self) (presences st))))"

definition get_anonymous_count :: "room \<Rightarrow> state \<Rightarrow> nat" where
  "get_anonymous_count self st =
     length (filter (\<lambda>p. presence_user p = None)
               (filter (\<lambda>p. presence_room p = room_id self) (presences st)))"

section \<open>class PresenceManager\<close>

definition touch :: "string \<Rightarrow> int \<Rightarrow> state \<Rightarrow> (error + unit) \<times> state" where
  "touch channel_name now st =
     (Inr (),
      st\<lparr>presences :=
           map (\<lambda>p. if presence_channel_name p = channel_name
                     then p\<lparr>presence_last_seen := now\<rparr> else p)
               (presences st)\<rparr>)"

text \<open>
  The query of \<^verbatim>\<open>leave_all\<close> joins each matching presence with its room
  (\<^verbatim>\<open>select_related\<close>); the loop stops at the first exception.
\<close>

definition presences_with_room :: "string \<Rightarrow> state \<Rightarrow> (presence \<times> room) list" where
  "presences_with_room channel_name st =
     concat (map (\<lambda>p. map (\<lambda>r. (p, r)) (filter (\<lambda>r. room_id r = presence_room p) (rooms st)))
                 (filter (\<lambda>p. presence_channel_name p = channel_name) (presences st)))"

fun leave_all_loop :: "env \<Rightarrow> (presence \<times> room) list \<Rightarrow> state \<Rightarrow> (error + unit) \<times> state" where
  "leave_all_loop e [] st = (Inr (), st)"
| "leave_all_loop e ((p, r) # rest) st =
     (case remove_presence e r None (Some p) st of
        (Inl err, st1) \<Rightarrow> (Inl err, st1)
      | (Inr u, st1) \<Rightarrow> leave_all_loop e rest st1)"

definition leave_all :: "env \<Rightarrow> string \<Rightarrow> state \<Rightarrow> (error + unit) \<times> state" where
  "leave_all e channel_name st = leave_all_loop e (presences_with_room channel_name st) st"

section \<open>class RoomManager\<close>

definition add ::
  "env \<Rightarrow> string \<Rightarrow> string \<Rightarrow> user option \<Rightarrow> int \<Rightarrow> state \<Rightarrow> (error + room) \<times> state" where
  "add e room_channel_name0 user_channel_name u now st =
     (case get_or_create (\<lambda>r. room_channel_name r = room_channel_name0) rooms
             (room_create room_channel_name0) st of
        (Inl err, st1) \<Rightarrow> (Inl err, st1)
      | (Inr (r, created), st1) \<Rightarrow>
          (case add_presence e r user_channel_name u now st1 of
             (Inl err, st2) \<Rightarrow> (Inl err, st2)
           | (Inr x, st2) \<Rightarrow> (Inr r, st2)))"

definition remove :: "env \<Rightarrow> string \<Rightarrow> string \<Rightarrow> state \<Rightarrow> (error + unit) \<times> state" where
  "remove e room_channel_name0 user_channel_name st =
     (case objects_get (\<lambda>r. room_channel_name r = room_channel_name0) (rooms st) of
        Inl DoesNotExist \<Rightarrow> (Inr (), st)
      | Inl err \<Rightarrow> (Inl err, st)
      | Inr r \<Rightarrow> remove_presence e r (Some user_channel_name) None st)"

fun prune_presences_loop ::
  "env \<Rightarrow> room list \<Rightarrow> int option \<Rightarrow> int \<Rightarrow> state \<Rightarrow> (error + unit) \<times> state" where
  "prune_presences_loop e [] age now st = (Inr (), st)"
| "prune_presences_loop e (r # rest) age now st =
     (case room_prune_presences e r age now st of
        (Inl err, st1) \<Rightarrow> (Inl err, st1)
      | (Inr u, st1) \<Rightarrow> prune_presences_loop e rest age now st1)"

definition prune_presences :: "env \<Rightarrow> int option \<Rightarrow> int \<Rightarrow> state \<Rightarrow> (error + unit) \<times> state" where
  "prune_presences e age now st = prune_presences_loop e (rooms st) age now st"

text \<open>
  \<^verbatim>\<open>filter(presence__isnull=True)\<close> keeps the rooms no presence refers to;
  \<^verbatim>\<open>delete\<close> removes them, and with them (\<^verbatim>\<open>on_delete=CASCADE\<close>) the presences
  that refer to a removed room.
\<close>

definition prune_rooms :: "state \<Rightarrow> (error + unit) \<times> state" where
  "prune_rooms st =
     (let doomed = filter (\<lambda>r. \<not> (\<exists>p \<in> set (presences st). presence_room p = room_id r))
                     (rooms st)
      in (Inr (),
          st\<lparr>rooms := filter (\<lambda>r. r \<notin> set doomed) (rooms st),
             presences := filter (\<lambda>p. \<not> (\<exists>r \<in> set doomed. room_id r = presence_room p))
                            (presences st)\<rparr>))"

section \<open>Database constraints\<close>

text \<open>
  \<^verbatim>\<open>unique_together = [("room", "channel_name")]\<close> of \<^verbatim>\<open>Presence.Meta\<close>, as a
  property of a state.
\<close>

definition unique_together :: "state \<Rightarrow> bool" where
  "unique_together st =
     distinct (map (\<lambda>p. (presence_room p, presence_channel_name p)) (presences st))"

text \<open>
  All the constraints the database keeps for the two tables: primary keys are unique and
  below the counter, \<^verbatim>\<open>Room.channel_name\<close> is unique, every presence refers to a stored
  room, and \<^verbatim>\<open>unique_together\<close>.
\<close>

definition constraints :: "state \<Rightarrow> bool" where
  "constraints st =
     (distinct (map room_id (rooms st))
      \<and> list_all (\<lambda>r. room_id r < room_seq st) (rooms st)
      \<and> distinct (map room_channel_name (rooms st))
      \<and> distinct (map presence_id (presences st))
      \<and> list_all (\<lambda>p. presence_id p < presence_seq st) (presences st)
      \<and> list_all (\<lambda>p. list_ex (\<lambda>r. room_id r = presence_room p) (rooms st)) (presences st)
      \<and> unique_together st)"

text \<open>The empty database: no rows, the counters at the first primary key.\<close>

definition initial_state :: state where
  "initial_state = \<lparr>rooms = [], presences = [], room_seq = 1, presence_seq = 1, trace = []\<rparr>"

section \<open>Example data\<close>

definition lobby :: room where
  "lobby = \<lparr>room_id = 1, room_channel_name = ''lobby''\<rparr>"

definition hall :: room where
  "hall = \<lparr>room_id = 2, room_channel_name = ''hall''\<rparr>"

definition example_env :: env where
  "example_env =
     \<lparr>receivers = [], CHANNELS_PRESENCE_MAX_AGE = None, DJANGO_ALLOW_ASYNC_UNSAFE = False\<rparr>"

text \<open>
  Two connections in the lobby, one of user 7 last seen at second 39 and an anonymous one
  last seen at second 41; the hall is empty.
\<close>

definition example_state :: state where
  "example_state =
     \<lparr>rooms = [lobby, hall],
      presences =
        [\<lparr>presence_id = 1, presence_room = 1, presence_channel_name = ''c1'',
          presence_user = Some 7, presence_last_seen = 39000000\<rparr>,
         \<lparr>presence_id = 2, presence_room = 1, presence_channel_name = ''c2'',
          presence_user = None, presence_last_seen = 41000000\<rparr>],
      room_seq = 3, presence_seq = 3, trace = []\<rparr>"

text \<open>An environment whose only receiver of \<^verbatim>\<open>presence_changed\<close> raises.\<close>

definition failing_env :: env where
  "failing_env =
     \<lparr>receivers = [\<lambda>ev. Raises], CHANNELS_PRESENCE_MAX_AGE = None,
      DJANGO_ALLOW_ASYNC_UNSAFE = False\<rparr>"

section \<open>Touch\<close>

text \<open>
  C3.  \<^verbatim>\<open>touch\<close> returns normally and sets \<^verbatim>\<open>last_seen\<close> to the clock reading on every
  presence row of the given channel name, in whatever room; every other column and every
  other row stay as they were, no row is created or deleted in either table, nothing is
  added to the trace (no signal, no channel-layer call), and when no row has the channel
  name the state is unchanged.
\<close>

theorem touch_updates_last_seen_only:
  "fst (touch cn now st) = Inr ()
   \<and> rooms (snd (touch cn now st)) = rooms st
   \<and> trace (snd (touch cn now st)) = trace st
   \<and> room_seq (snd (touch cn now st)) = room_seq st
   \<and> presence_seq (snd (touch cn now st)) = presence_seq st
   \<and> length (presences (snd (touch cn now st))) = length (presences st)
   \<and> (\<forall>i < length (presences st).
         presences (snd (touch cn now st)) ! i =
           (if presence_channel_name (presences st ! i) = cn
            then (presences st ! i)\<lparr>presence_last_seen := now\<rparr>
            else presences st ! i))
   \<and> ((\<forall>p \<in> set (presences st). presence_channel_name p \<noteq> cn) \<longrightarrow>
        touch cn now st = (Inr (), st))"
  by (simp add: touch_def map_idI)

theorem touch_updates_last_seen_only_witness:
  "presences (snd (touch ''c1'' 50000000 example_state)) ! 0 =
     \<lparr>presence_id = 1, presence_room = 1, presence_channel_name = ''c1'',
      presence_user = Some 7, presence_last_seen = 50000000\<rparr>
   \<and> presences (snd (touch ''c1'' 50000000 example_state)) ! 1 =
     \<lparr>presence_id = 2, presence_room = 1, presence_channel_name = ''c2'',
      presence_user = None, presence_last_seen = 41000000\<rparr>
   \<and> touch ''c9'' 50000000 example_state = (Inr (), example_state)"
proof -
  note t = touch_updates_last_seen_only [of "''c1''" 50000000 example_state]
  note u = touch_updates_last_seen_only [of "''c9''" 50000000 example_state]
  have len: "length (presences example_state) = 2"
    by (simp add: example_state_def)
  have at: "\<forall>i < length (presences example_state).
         presences (snd (touch ''c1'' 50000000 example_state)) ! i =
           (if presence_channel_name (presences example_state ! i) = ''c1''
            then (presences example_state ! i)\<lparr>presence_last_seen := 50000000\<rparr>
            else presences example_state ! i)"
    using t by blast
  have a0: "presences (snd (touch ''c1'' 50000000 example_state)) ! 0 =
     \<lparr>presence_id = 1, presence_room = 1, presence_channel_name = ''c1'',
      presence_user = Some 7, presence_last_seen = 50000000\<rparr>"
    using at len by (simp add: example_state_def)
  have a1: "presences (snd (touch ''c1'' 50000000 example_state)) ! 1 =
     \<lparr>presence_id = 2, presence_room = 1, presence_channel_name = ''c2'',
      presence_user = None, presence_last_seen = 41000000\<rparr>"
    using at len by (simp add: example_state_def)
  have none: "\<forall>p \<in> set (presences example_state). presence_channel_name p \<noteq> ''c9''"
    by (simp add: example_state_def)
  have a2: "touch ''c9'' 50000000 example_state = (Inr (), example_state)"
    using u none by blast
  show ?thesis using a0 a1 a2 by blast
qed

section \<open>Pruning stale presences of a room\<close>

text \<open>
  C4.  \<^verbatim>\<open>Room.prune_presences\<close> with age \<open>a\<close> keeps exactly the presence rows that are
  not both of this room and last seen before \<open>now - a\<close> seconds, leaves the rooms alone, and
  sends one signal with \<^verbatim>\<open>bulk_change=True\<close> when at least one row went and none
  otherwise.  Without an age it uses the setting \<^verbatim>\<open>CHANNELS_PRESENCE_MAX_AGE\<close>, 60 when
  the setting is absent.  With age 60 a row of the room last seen 61 seconds ago goes, a row
  last seen 59 seconds ago stays, and a room whose rows are all 59 seconds old sees no change
  and no signal.
\<close>

lemma prune_presences_rows:
  "presences (snd (room_prune_presences e r (Some a) now st)) =
     filter (\<lambda>p. \<not> (presence_room p = room_id r
                     \<and> presence_last_seen p < now - timedelta_seconds a))
       (presences st)"
  by (simp add: room_prune_presences_def broadcast_changed_def Let_def)

lemma prune_presences_rooms:
  "rooms (snd (room_prune_presences e r age now st)) = rooms st"
  by (simp add: room_prune_presences_def broadcast_changed_def Let_def)

lemma prune_presences_trace:
  "trace (snd (room_prune_presences e r (Some a) now st)) =
     trace st @
     (if \<exists>p \<in> set (presences st). presence_room p = room_id r
             \<and> presence_last_seen p < now - timedelta_seconds a
      then [PresenceChanged \<lparr>ev_room = r, ev_added = None, ev_removed = None,
                             ev_bulk_change = True\<rparr>]
      else [])"
  by (auto simp add: room_prune_presences_def broadcast_changed_def Let_def filter_empty_conv)

lemma prune_presences_default:
  "room_prune_presences e r None now st =
   room_prune_presences e r
     (Some (case CHANNELS_PRESENCE_MAX_AGE e of None \<Rightarrow> 60 | Some a \<Rightarrow> a)) now st"
  by (simp add: room_prune_presences_def)

lemma prune_presences_fresh:
  assumes "\<forall>p \<in> set (presences st).
          presence_room p = room_id r \<longrightarrow> presence_last_seen p = now - timedelta_seconds 59"
  shows "room_prune_presences e r (Some 60) now st = (Inr (), st)"
proof -
  have "filter (\<lambda>p. presence_room p = room_id r
                   \<and> presence_last_seen p < now - timedelta_seconds 60) (presences st) = []"
    using assms by (auto simp: filter_empty_conv timedelta_seconds_def)
  moreover have "filter (\<lambda>p. \<not> (presence_room p = room_id r
                   \<and> presence_last_seen p < now - timedelta_seconds 60)) (presences st)
                 = presences st"
    using assms by (auto simp: filter_id_conv timedelta_seconds_def)
  ultimately show ?thesis
    by (simp add: room_prune_presences_def Let_def)
qed

theorem prune_presences_stale:
  "presences (snd (room_prune_presences e r (Some a) now st)) =
     filter (\<lambda>p. \<not> (presence_room p = room_id r
                     \<and> presence_last_seen p < now - timedelta_seconds a))
       (presences st)
   \<and> rooms (snd (room_prune_presences e r (Some a) now st)) = rooms st
   \<and> trace (snd (room_prune_presences e r (Some a) now st)) =
       trace st @
       (if \<exists>p \<in> set (presences st). presence_room p = room_id r
               \<and> presence_last_seen p < now - timedelta_seconds a
        then [PresenceChanged \<lparr>ev_room = r, ev_added = None, ev_removed = None,
                               ev_bulk_change = True\<rparr>]
        else [])
   \<and> room_prune_presences e r None now st =
       room_prune_presences e r
         (Some (case CHANNELS_PRESENCE_MAX_AGE e of None \<Rightarrow> 60 | Some a \<Rightarrow> a)) now st
   \<and> (\<forall>p \<in> set (presences st).
         presence_room p = room_id r \<and> presence_last_seen p = now - timedelta_seconds 61 \<longrightarrow>
         p \<notin> set (presences (snd (room_prune_presences e r (Some 60) now st))))
   \<and> (\<forall>p \<in> set (presences st).
         presence_last_seen p = now - timedelta_seconds 59 \<longrightarrow>
         p \<in> set (presences (snd (room_prune_presences e r (Some 60) now st))))
   \<and> ((\<forall>p \<in> set (presences st).
          presence_room p = room_id r \<longrightarrow> presence_last_seen p = now - timedelta_seconds 59) \<longrightarrow>
        room_prune_presences e r (Some 60) now st = (Inr (), st))"
proof (intro conjI)
  show "\<forall>p \<in> set (presences st).
         presence_room p = room_id r \<and> presence_last_seen p = now - timedelta_seconds 61 \<longrightarrow>
         p \<notin> set (presences (snd (room_prune_presences e r (Some 60) now st)))"
    by (simp add: prune_presences_rows timedelta_seconds_def)
  show "\<forall>p \<in> set (presences st).
         presence_last_seen p = now - timedelta_seconds 59 \<longrightarrow>
         p \<in> set (presences (snd (room_prune_presences e r (Some 60) now st)))"
    by (simp add: prune_presences_rows timedelta_seconds_def)
  show "(\<forall>p \<in> set (presences st).
          presence_room p = room_id r \<longrightarrow> presence_last_seen p = now - timedelta_seconds 59) \<longrightarrow>
        room_prune_presences e r (Some 60) now st = (Inr (), st)"
    using prune_presences_fresh by blast
  show "room_prune_presences e r None now st =
       room_prune_presences e r
         (Some (case CHANNELS_PRESENCE_MAX_AGE e of None \<Rightarrow> 60 | Some a \<Rightarrow> a)) now st"
    by (rule prune_presences_default)
qed (simp_all add: prune_presences_rows prune_presences_rooms prune_presences_trace)

theorem prune_presences_stale_witness:
  "presences (snd (room_prune_presences example_env lobby (Some 60) 100000000 example_state)) =
     [\<lparr>presence_id = 2, presence_room = 1, presence_channel_name = ''c2'',
       presence_user = None, presence_last_seen = 41000000\<rparr>]
   \<and> trace (snd (room_prune_presences example_env lobby (Some 60) 100000000 example_state)) =
       [PresenceChanged \<lparr>ev_room = lobby, ev_added = None, ev_removed = None,
                         ev_bulk_change = True\<rparr>]"
proof -
  note t = prune_presences_stale [of example_env lobby 60 100000000 example_state]
  have rows: "presences (snd (room_prune_presences example_env lobby (Some 60) 100000000 example_state)) =
     filter (\<lambda>p. \<not> (presence_room p = room_id lobby
                     \<and> presence_last_seen p < 100000000 - timedelta_seconds 60))
       (presences example_state)"
    using t by (rule conjunct1)
  have tr: "trace (snd (room_prune_presences example_env lobby (Some 60) 100000000 example_state)) =
       trace example_state @
       (if \<exists>p \<in> set (presences example_state). presence_room p = room_id lobby
               \<and> presence_last_seen p < 100000000 - timedelta_seconds 60
        then [PresenceChanged \<lparr>ev_room = lobby, ev_added = None, ev_removed = None,
                               ev_bulk_change = True\<rparr>]
        else [])"
    using t by blast
  show ?thesis
    unfolding rows tr
    by (simp add: example_state_def lobby_def timedelta_seconds_def)
qed

section \<open>Pruning empty rooms\<close>

text \<open>
  C5.  \<^verbatim>\<open>prune_rooms\<close> keeps exactly the rooms that have at least one presence row and
  deletes the rooms that have none; no presence row goes and nothing is added to the trace.
\<close>

theorem prune_rooms_deletes_empty_rooms:
  "fst (prune_rooms st) = Inr ()
   \<and> rooms (snd (prune_rooms st)) =
       filter (\<lambda>r. length (filter (\<lambda>p. presence_room p = room_id r) (presences st)) \<noteq> 0)
         (rooms st)
   \<and> presences (snd (prune_rooms st)) = presences st
   \<and> trace (snd (prune_rooms st)) = trace st"
proof -
  have keep: "rooms (snd (prune_rooms st)) =
       filter (\<lambda>r. length (filter (\<lambda>p. presence_room p = room_id r) (presences st)) \<noteq> 0)
         (rooms st)"
    unfolding prune_rooms_def Let_def
    by (auto simp: filter_empty_conv intro: filter_cong)
  have rows: "presences (snd (prune_rooms st)) = presences st"
    unfolding prune_rooms_def Let_def
    by (auto simp: filter_id_conv)
  show ?thesis
    using keep rows by (simp add: prune_rooms_def Let_def)
qed

theorem prune_rooms_deletes_empty_rooms_witness:
  "rooms (snd (prune_rooms example_state)) = [lobby]
   \<and> presences (snd (prune_rooms example_state)) = presences example_state"
proof -
  note t = prune_rooms_deletes_empty_rooms [of example_state]
  have keep: "rooms (snd (prune_rooms example_state)) =
       filter (\<lambda>r. length (filter (\<lambda>p. presence_room p = room_id r) (presences example_state)) \<noteq> 0)
         (rooms example_state)"
    using t by blast
  have "rooms (snd (prune_rooms example_state)) = [lobby]"
    unfolding keep by (simp add: example_state_def lobby_def hall_def)
  then show ?thesis using t by blast
qed

section \<open>Lookups\<close>

lemma filter_unique_key:
  "distinct (map f xs) \<Longrightarrow> x \<in> set xs \<Longrightarrow> P x \<Longrightarrow>
   \<forall>y \<in> set xs. P y \<longrightarrow> f y = f x \<Longrightarrow> filter P xs = [x]"
proof (induction xs)
  case Nil
  then show ?case by simp
next
  case (Cons a xs)
  have fresh: "f a \<notin> f ` set xs" using Cons.prems(1) by simp
  show ?case
  proof (cases "a = x")
    case True
    have "\<forall>y \<in> set xs. \<not> P y"
    proof
      fix y assume y: "y \<in> set xs"
      show "\<not> P y"
      proof
        assume "P y"
        then have "f y = f a" using Cons.prems(4) y True by simp
        then show False using fresh y by (metis imageI)
      qed
    qed
    then have "filter P xs = []" by (simp add: filter_empty_conv)
    then show ?thesis using True Cons.prems(3) by simp
  next
    case False
    then have xin: "x \<in> set xs" using Cons.prems(2) by simp
    have "\<not> P a"
    proof
      assume "P a"
      then have "f a = f x" using Cons.prems(4) by simp
      then show False using fresh xin by (metis imageI)
    qed
    moreover have "distinct (map f xs)" using Cons.prems(1) by simp
    moreover have "\<forall>y \<in> set xs. P y \<longrightarrow> f y = f x" using Cons.prems(4) by auto
    ultimately have "\<not> P a \<and> filter P xs = [x]"
      using Cons.IH [OF _ xin Cons.prems(3)] by blast
    then show ?thesis by simp
  qed
qed

lemma objects_get_found:
  "distinct (map f xs) \<Longrightarrow> x \<in> set xs \<Longrightarrow> P x \<Longrightarrow>
   \<forall>y \<in> set xs. P y \<longrightarrow> f y = f x \<Longrightarrow> objects_get P xs = Inr x"
proof -
  assume "distinct (map f xs)" "x \<in> set xs" "P x" "\<forall>y \<in> set xs. P y \<longrightarrow> f y = f x"
  then have "filter P xs = [x]" by (rule filter_unique_key)
  then show ?thesis by (simp add: objects_get_def)
qed

lemma objects_get_missing:
  "\<forall>y \<in> set xs. \<not> P y \<Longrightarrow> objects_get P xs = Inl DoesNotExist"
proof -
  assume "\<forall>y \<in> set xs. \<not> P y"
  then have "filter P xs = []" by (simp add: filter_empty_conv)
  then show ?thesis by (simp add: objects_get_def)
qed

lemma objects_get_Inr:
  "objects_get P xs = Inr x \<Longrightarrow> x \<in> set xs \<and> P x"
proof -
  assume a: "objects_get P xs = Inr x"
  then have "filter P xs = [x]"
    by (auto simp: objects_get_def split: list.splits)
  then have "x \<in> set (filter P xs)" by simp
  then show ?thesis by simp
qed

lemma distinct_map_eq:
  "distinct (map f xs) \<Longrightarrow> x \<in> set xs \<Longrightarrow> y \<in> set xs \<Longrightarrow> f x = f y \<Longrightarrow> x = y"
  by (simp add: distinct_map inj_on_def)

lemma room_lookup_found:
  assumes "distinct (map room_channel_name (rooms st))"
    and "r \<in> set (rooms st)" and "room_channel_name r = name"
  shows "objects_get (\<lambda>r. room_channel_name r = name) (rooms st) = Inr r"
proof (rule objects_get_found [where f = room_channel_name])
  show "\<forall>y \<in> set (rooms st). room_channel_name y = name \<longrightarrow> room_channel_name y = room_channel_name r"
    using assms(3) by simp
qed (use assms in simp_all)

lemma room_get_or_create_existing:
  assumes "distinct (map room_channel_name (rooms st))"
    and "r \<in> set (rooms st)" and "room_channel_name r = name"
  shows "get_or_create (\<lambda>r. room_channel_name r = name) rooms (room_create name) st
         = (Inr (r, False), st)"
  by (simp add: get_or_create_def room_lookup_found [OF assms])

lemma room_get_or_create_new:
  assumes "\<forall>r \<in> set (rooms st). room_channel_name r \<noteq> name"
  shows "get_or_create (\<lambda>r. room_channel_name r = name) rooms (room_create name) st
         = (Inr (\<lparr>room_id = room_seq st, room_channel_name = name\<rparr>, True),
            st\<lparr>rooms := rooms st @ [\<lparr>room_id = room_seq st, room_channel_name = name\<rparr>],
               room_seq := Suc (room_seq st)\<rparr>)"
proof -
  have "objects_get (\<lambda>r. room_channel_name r = name) (rooms st) = Inl DoesNotExist"
    using assms by (intro objects_get_missing) simp
  moreover have "room_create name st =
      (Inr \<lparr>room_id = room_seq st, room_channel_name = name\<rparr>,
       st\<lparr>rooms := rooms st @ [\<lparr>room_id = room_seq st, room_channel_name = name\<rparr>],
          room_seq := Suc (room_seq st)\<rparr>)"
    using assms by (simp add: room_create_def Let_def)
  ultimately show ?thesis by (simp add: get_or_create_def)
qed

lemma add_presence_existing:
  assumes "unique_together st" and "p \<in> set (presences st)"
    and "presence_room p = room_id r" and "presence_channel_name p = cn"
    and "presence_user p = authed_user u"
  shows "add_presence e r cn u now st = (Inr (), st)"
proof -
  have "objects_get (\<lambda>p. presence_room p = room_id r \<and> presence_channel_name p = cn
                         \<and> presence_user p = authed_user u) (presences st) = Inr p"
  proof (rule objects_get_found [where f = "\<lambda>p. (presence_room p, presence_channel_name p)"])
    show "distinct (map (\<lambda>p. (presence_room p, presence_channel_name p)) (presences st))"
      using assms(1) by (simp add: unique_together_def)
    show "\<forall>y \<in> set (presences st).
            presence_room y = room_id r \<and> presence_channel_name y = cn
              \<and> presence_user y = authed_user u \<longrightarrow>
            (presence_room y, presence_channel_name y) = (presence_room p, presence_channel_name p)"
      using assms(3,4) by simp
  qed (use assms in simp_all)
  then show ?thesis by (simp add: add_presence_def get_or_create_def)
qed

lemma add_presence_new:
  assumes "\<exists>r' \<in> set (rooms st). room_id r' = room_id r"
    and "\<forall>p \<in> set (presences st). \<not> (presence_room p = room_id r \<and> presence_channel_name p = cn)"
  shows "add_presence e r cn u now st =
     (send (receivers e)
        \<lparr>ev_room = r,
         ev_added = Some \<lparr>presence_id = presence_seq st, presence_room = room_id r,
                          presence_channel_name = cn, presence_user = authed_user u,
                          presence_last_seen = now\<rparr>,
         ev_removed = None, ev_bulk_change = False\<rparr>,
      st\<lparr>presences := presences st @
             [\<lparr>presence_id = presence_seq st, presence_room = room_id r,
               presence_channel_name = cn, presence_user = authed_user u,
               presence_last_seen = now\<rparr>],
         presence_seq := Suc (presence_seq st),
         trace := trace st @
           [GroupAdd (room_channel_name r) cn,
            PresenceChanged
              \<lparr>ev_room = r,
               ev_added = Some \<lparr>presence_id = presence_seq st, presence_room = room_id r,
                                presence_channel_name = cn, presence_user = authed_user u,
                                presence_last_seen = now\<rparr>,
               ev_removed = None, ev_bulk_change = False\<rparr>]\<rparr>)"
proof -
  have "objects_get (\<lambda>p. presence_room p = room_id r \<and> presence_channel_name p = cn
                         \<and> presence_user p = authed_user u) (presences st) = Inl DoesNotExist"
    using assms(2) by (intro objects_get_missing) blast
  moreover have "presence_create r cn (authed_user u) now st =
      (Inr \<lparr>presence_id = presence_seq st, presence_room = room_id r,
            presence_channel_name = cn, presence_user = authed_user u,
            presence_last_seen = now\<rparr>,
       st\<lparr>presences := presences st @
             [\<lparr>presence_id = presence_seq st, presence_room = room_id r,
               presence_channel_name = cn, presence_user = authed_user u,
               presence_last_seen = now\<rparr>],
          presence_seq := Suc (presence_seq st)\<rparr>)"
    using assms by (simp add: presence_create_def Let_def)
  ultimately show ?thesis
    by (simp add: add_presence_def get_or_create_def broadcast_changed_def group_add_def Let_def)
qed

lemma add_presence_conflict:
  assumes "unique_together st" and "q \<in> set (presences st)"
    and "presence_room q = room_id r" and "presence_channel_name q = cn"
    and "presence_user q \<noteq> authed_user u"
  shows "add_presence e r cn u now st = (Inl IntegrityError, st)"
proof -
  have key: "distinct (map (\<lambda>p. (presence_room p, presence_channel_name p)) (presences st))"
    using assms(1) by (simp add: unique_together_def)
  have none: "\<forall>y \<in> set (presences st).
          \<not> (presence_room y = room_id r \<and> presence_channel_name y = cn
              \<and> presence_user y = authed_user u)"
  proof
    fix y assume y: "y \<in> set (presences st)"
    show "\<not> (presence_room y = room_id r \<and> presence_channel_name y = cn
              \<and> presence_user y = authed_user u)"
    proof
      assume m: "presence_room y = room_id r \<and> presence_channel_name y = cn
              \<and> presence_user y = authed_user u"
      then have "(presence_room y, presence_channel_name y)
                 = (presence_room q, presence_channel_name q)"
        using assms(3,4) by simp
      then have "y = q"
        using distinct_map_eq [OF key y assms(2)] by blast
      then show False using m assms(5) by simp
    qed
  qed
  have get: "objects_get (\<lambda>p. presence_room p = room_id r \<and> presence_channel_name p = cn
                         \<and> presence_user p = authed_user u) (presences st) = Inl DoesNotExist"
    using none by (rule objects_get_missing)
  have "\<exists>p \<in> set (presences st). presence_room p = room_id r \<and> presence_channel_name p = cn"
    using assms(2,3,4) by blast
  then have "presence_create r cn (authed_user u) now st = (Inl IntegrityError, st)"
    by (simp add: presence_create_def)
  then show ?thesis using get
    by (simp add: add_presence_def get_or_create_def)
qed

lemma constraints_names: "constraints st \<Longrightarrow> distinct (map room_channel_name (rooms st))"
  by (simp add: constraints_def)

lemma constraints_unique: "constraints st \<Longrightarrow> unique_together st"
  by (simp add: constraints_def)

lemma constraints_room_below:
  assumes "constraints st" and "p \<in> set (presences st)"
  shows "presence_room p < room_seq st"
proof -
  have fk: "\<forall>p \<in> set (presences st). \<exists>r \<in> set (rooms st). room_id r = presence_room p"
    and below: "\<forall>r \<in> set (rooms st). room_id r < room_seq st"
    using assms(1) by (simp_all add: constraints_def list_all_iff list_ex_iff)
  obtain r where "r \<in> set (rooms st)" "room_id r = presence_room p"
    using fk assms(2) by blast
  then show ?thesis using below by force
qed

lemma remove_presence_absent:
  assumes "\<forall>p \<in> set (presences st).
             \<not> (presence_room p = room_id r \<and> presence_channel_name p = cn)"
  shows "remove_presence e r (Some cn) None st = (Inr (), st)"
proof -
  have "objects_get (\<lambda>p. presence_room p = room_id r \<and> Some (presence_channel_name p) = Some cn)
          (presences st) = Inl DoesNotExist"
    using assms by (intro objects_get_missing) simp
  then show ?thesis by (simp add: remove_presence_def)
qed

lemma remove_presence_present:
  assumes "unique_together st" and "p \<in> set (presences st)"
    and "presence_room p = room_id r" and "presence_channel_name p = cn"
  shows "remove_presence e r (Some cn) None st =
     (send (receivers e)
        \<lparr>ev_room = r, ev_added = None, ev_removed = Some p, ev_bulk_change = False\<rparr>,
      st\<lparr>presences := filter (\<lambda>q. presence_id q \<noteq> presence_id p) (presences st),
         trace := trace st @
           [GroupDiscard (room_channel_name r) cn,
            PresenceChanged
              \<lparr>ev_room = r, ev_added = None, ev_removed = Some p, ev_bulk_change = False\<rparr>]\<rparr>)"
proof -
  have "objects_get (\<lambda>p. presence_room p = room_id r \<and> Some (presence_channel_name p) = Some cn)
          (presences st) = Inr p"
  proof (rule objects_get_found [where f = "\<lambda>p. (presence_room p, presence_channel_name p)"])
    show "distinct (map (\<lambda>p. (presence_room p, presence_channel_name p)) (presences st))"
      using assms(1) by (simp add: unique_together_def)
    show "\<forall>y \<in> set (presences st).
            presence_room y = room_id r \<and> Some (presence_channel_name y) = Some cn \<longrightarrow>
            (presence_room y, presence_channel_name y) = (presence_room p, presence_channel_name p)"
      using assms(3,4) by simp
  qed (use assms in simp_all)
  then show ?thesis
    using assms(4)
    by (simp add: remove_presence_def broadcast_changed_def presence_delete_def
        group_discard_def Let_def)
qed

lemma presence_gone_after_delete:
  assumes "unique_together st" and "p \<in> set (presences st)"
    and "presence_room p = room_id r" and "presence_channel_name p = cn"
  shows "\<forall>q \<in> set (filter (\<lambda>q. presence_id q \<noteq> presence_id p) (presences st)).
           \<not> (presence_room q = room_id r \<and> presence_channel_name q = cn)"
proof
  fix q assume q: "q \<in> set (filter (\<lambda>q. presence_id q \<noteq> presence_id p) (presences st))"
  then have qin: "q \<in> set (presences st)" and ne: "presence_id q \<noteq> presence_id p" by simp_all
  have key: "distinct (map (\<lambda>p. (presence_room p, presence_channel_name p)) (presences st))"
    using assms(1) by (simp add: unique_together_def)
  show "\<not> (presence_room q = room_id r \<and> presence_channel_name q = cn)"
  proof
    assume "presence_room q = room_id r \<and> presence_channel_name q = cn"
    then have "(presence_room q, presence_channel_name q)
               = (presence_room p, presence_channel_name p)"
      using assms(3,4) by simp
    then have "q = p" using distinct_map_eq [OF key qin assms(2)] by blast
    then show False using ne by simp
  qed
qed

lemma remove_no_room:
  assumes "\<forall>r \<in> set (rooms st). room_channel_name r \<noteq> name"
  shows "remove e name cn st = (Inr (), st)"
proof -
  have "objects_get (\<lambda>r. room_channel_name r = name) (rooms st) = Inl DoesNotExist"
    using assms by (intro objects_get_missing) simp
  then show ?thesis by (simp add: remove_def)
qed

lemma remove_in_room:
  assumes "distinct (map room_channel_name (rooms st))"
    and "r \<in> set (rooms st)" and "room_channel_name r = name"
  shows "remove e name cn st = remove_presence e r (Some cn) None st"
  by (simp add: remove_def room_lookup_found [OF assms])

lemma remove_absent:
  assumes "distinct (map room_channel_name (rooms st))"
    and "\<forall>r \<in> set (rooms st). \<forall>p \<in> set (presences st).
           \<not> (room_channel_name r = name \<and> presence_room p = room_id r
               \<and> presence_channel_name p = cn)"
  shows "remove e name cn st = (Inr (), st)"
proof (cases "\<exists>r \<in> set (rooms st). room_channel_name r = name")
  case False
  then show ?thesis by (intro remove_no_room) simp
next
  case True
  then obtain r where r: "r \<in> set (rooms st)" "room_channel_name r = name" by blast
  have "\<forall>p \<in> set (presences st).
          \<not> (presence_room p = room_id r \<and> presence_channel_name p = cn)"
    using assms(2) r by blast
  then have "remove_presence e r (Some cn) None st = (Inr (), st)"
    by (rule remove_presence_absent)
  then show ?thesis using remove_in_room [OF assms(1) r] by simp
qed

lemma remove_present:
  assumes "constraints st" and "r \<in> set (rooms st)" and "room_channel_name r = name"
    and "p \<in> set (presences st)" and "presence_room p = room_id r"
    and "presence_channel_name p = cn"
  shows "remove e name cn st =
     (send (receivers e)
        \<lparr>ev_room = r, ev_added = None, ev_removed = Some p, ev_bulk_change = False\<rparr>,
      st\<lparr>presences := filter (\<lambda>q. presence_id q \<noteq> presence_id p) (presences st),
         trace := trace st @
           [GroupDiscard name cn,
            PresenceChanged
              \<lparr>ev_room = r, ev_added = None, ev_removed = Some p, ev_bulk_change = False\<rparr>]\<rparr>)"
  using remove_in_room [OF constraints_names [OF assms(1)] assms(2,3)]
    remove_presence_present [OF constraints_unique [OF assms(1)] assms(4,5,6)] assms(3)
  by simp

lemma remove_twice:
  assumes "constraints st"
  shows "remove e name cn (snd (remove e name cn st)) = (Inr (), snd (remove e name cn st))"
proof (cases "\<exists>r \<in> set (rooms st). \<exists>p \<in> set (presences st).
           room_channel_name r = name \<and> presence_room p = room_id r
           \<and> presence_channel_name p = cn")
  case False
  then have "remove e name cn st = (Inr (), st)"
    using remove_absent [OF constraints_names [OF assms]] by blast
  then show ?thesis by simp
next
  case True
  then obtain r p where r: "r \<in> set (rooms st)" "room_channel_name r = name"
    and p: "p \<in> set (presences st)" "presence_room p = room_id r" "presence_channel_name p = cn"
    by blast
  define st1 where "st1 = snd (remove e name cn st)"
  have st1: "rooms st1 = rooms st"
    "presences st1 = filter (\<lambda>q. presence_id q \<noteq> presence_id p) (presences st)"
    unfolding st1_def using remove_present [OF assms r p] by simp_all
  have names: "distinct (map room_channel_name (rooms st1))"
    using constraints_names [OF assms] st1(1) by simp
  have r1: "r \<in> set (rooms st1)" using r(1) st1(1) by simp
  have "\<forall>q \<in> set (presences st1).
          \<not> (presence_room q = room_id r \<and> presence_channel_name q = cn)"
    using presence_gone_after_delete [OF constraints_unique [OF assms] p] st1(2) by simp
  then have "remove_presence e r (Some cn) None st1 = (Inr (), st1)"
    by (rule remove_presence_absent)
  then have "remove e name cn st1 = (Inr (), st1)"
    using remove_in_room [OF names r1 r(2)] by simp
  then show ?thesis by (simp add: st1_def)
qed

lemma add_existing:
  assumes "constraints st" and "r \<in> set (rooms st)" and "room_channel_name r = name"
    and "p \<in> set (presences st)" and "presence_room p = room_id r"
    and "presence_channel_name p = cn" and "presence_user p = authed_user u"
  shows "add e name cn u now st = (Inr r, st)"
  using room_get_or_create_existing [OF constraints_names [OF assms(1)] assms(2,3)]
    add_presence_existing [OF constraints_unique [OF assms(1)] assms(4,5,6,7)]
  by (simp add: add_def)

lemma add_conflict:
  assumes "constraints st" and "r \<in> set (rooms st)" and "room_channel_name r = name"
    and "q \<in> set (presences st)" and "presence_room q = room_id r"
    and "presence_channel_name q = cn" and "presence_user q \<noteq> authed_user u"
  shows "add e name cn u now st = (Inl IntegrityError, st)"
  using room_get_or_create_existing [OF constraints_names [OF assms(1)] assms(2,3)]
    add_presence_conflict [OF constraints_unique [OF assms(1)] assms(4,5,6,7)]
  by (simp add: add_def)

lemma add_new_in_room:
  assumes "constraints st" and "r \<in> set (rooms st)" and "room_channel_name r = name"
    and "\<forall>p \<in> set (presences st). \<not> (presence_room p = room_id r \<and> presence_channel_name p = cn)"
  shows "add e name cn u now st =
     (case send (receivers e)
        \<lparr>ev_room = r,
         ev_added = Some \<lparr>presence_id = presence_seq st, presence_room = room_id r,
                          presence_channel_name = cn, presence_user = authed_user u,
                          presence_last_seen = now\<rparr>,
         ev_removed = None, ev_bulk_change = False\<rparr> of
        Inl err \<Rightarrow> Inl err
      | Inr x \<Rightarrow> Inr r,
      st\<lparr>presences := presences st @
             [\<lparr>presence_id = presence_seq st, presence_room = room_id r,
               presence_channel_name = cn, presence_user = authed_user u,
               presence_last_seen = now\<rparr>],
         presence_seq := Suc (presence_seq st),
         trace := trace st @
           [GroupAdd name cn,
            PresenceChanged
              \<lparr>ev_room = r,
               ev_added = Some \<lparr>presence_id = presence_seq st, presence_room = room_id r,
                                presence_channel_name = cn, presence_user = authed_user u,
                                presence_last_seen = now\<rparr>,
               ev_removed = None, ev_bulk_change = False\<rparr>]\<rparr>)"
proof -
  have fk: "\<exists>r' \<in> set (rooms st). room_id r' = room_id r" using assms(2) by blast
  show ?thesis
    using room_get_or_create_existing [OF constraints_names [OF assms(1)] assms(2,3)]
      add_presence_new [OF fk assms(4)] assms(3)
    by (simp add: add_def split: sum.splits)
qed

lemma add_new_room:
  assumes "constraints st" and "\<forall>r \<in> set (rooms st). room_channel_name r \<noteq> name"
  shows "add e name cn u now st =
     (case send (receivers e)
        \<lparr>ev_room = \<lparr>room_id = room_seq st, room_channel_name = name\<rparr>,
         ev_added = Some \<lparr>presence_id = presence_seq st, presence_room = room_seq st,
                          presence_channel_name = cn, presence_user = authed_user u,
                          presence_last_seen = now\<rparr>,
         ev_removed = None, ev_bulk_change = False\<rparr> of
        Inl err \<Rightarrow> Inl err
      | Inr x \<Rightarrow> Inr \<lparr>room_id = room_seq st, room_channel_name = name\<rparr>,
      st\<lparr>rooms := rooms st @ [\<lparr>room_id = room_seq st, room_channel_name = name\<rparr>],
         room_seq := Suc (room_seq st),
         presences := presences st @
             [\<lparr>presence_id = presence_seq st, presence_room = room_seq st,
               presence_channel_name = cn, presence_user = authed_user u,
               presence_last_seen = now\<rparr>],
         presence_seq := Suc (presence_seq st),
         trace := trace st @
           [GroupAdd name cn,
            PresenceChanged
              \<lparr>ev_room = \<lparr>room_id = room_seq st, room_channel_name = name\<rparr>,
               ev_added = Some \<lparr>presence_id = presence_seq st, presence_room = room_seq st,
                                presence_channel_name = cn, presence_user = authed_user u,
                                presence_last_seen = now\<rparr>,
               ev_removed = None, ev_bulk_change = False\<rparr>]\<rparr>)"
proof -
  define r where "r = \<lparr>room_id = room_seq st, room_channel_name = name\<rparr>"
  define st1 where "st1 = st\<lparr>rooms := rooms st @ [r], room_seq := Suc (room_seq st)\<rparr>"
  have goc: "get_or_create (\<lambda>r. room_channel_name r = name) rooms (room_create name) st
             = (Inr (r, True), st1)"
    using room_get_or_create_new [OF assms(2)] by (simp add: r_def st1_def)
  have fk: "\<exists>r' \<in> set (rooms st1). room_id r' = room_id r"
    by (simp add: st1_def)
  have fresh: "\<forall>p \<in> set (presences st1).
                 \<not> (presence_room p = room_id r \<and> presence_channel_name p = cn)"
  proof
    fix p assume "p \<in> set (presences st1)"
    then have "p \<in> set (presences st)" by (simp add: st1_def)
    then have "presence_room p < room_seq st" using constraints_room_below [OF assms(1)] by blast
    then show "\<not> (presence_room p = room_id r \<and> presence_channel_name p = cn)"
      by (simp add: r_def)
  qed
  show ?thesis
    using goc add_presence_new [OF fk fresh, of e u now]
    by (simp add: add_def r_def st1_def split: sum.splits)
qed

section \<open>Join\<close>

text \<open>
  C1.  In a state that satisfies the database constraints, \<^verbatim>\<open>RoomManager.add\<close> on a
  room name, channel name and user whose presence row (room, channel name, authenticated
  user or null) is already stored returns the room and changes nothing: no row, no
  channel-layer call, no signal.  When the room has no row for the channel name (the room
  itself may be missing and is then created), exactly one presence row is appended, and the
  trace grows by exactly one \<^verbatim>\<open>group_add(room.channel_name, channel_name)\<close> followed by
  exactly one \<^verbatim>\<open>presence_changed\<close> signal whose \<^verbatim>\<open>added\<close> is the new row.
\<close>

theorem join_once:
  assumes "constraints st"
  shows "(\<forall>r \<in> set (rooms st). \<forall>p \<in> set (presences st).
            room_channel_name r = name \<and> presence_room p = room_id r
            \<and> presence_channel_name p = cn \<and> presence_user p = authed_user u \<longrightarrow>
            add e name cn u now st = (Inr r, st))
       \<and> ((\<forall>r \<in> set (rooms st). \<forall>p \<in> set (presences st).
              \<not> (room_channel_name r = name \<and> presence_room p = room_id r
                  \<and> presence_channel_name p = cn)) \<longrightarrow>
           (\<exists>r. room_channel_name r = name
              \<and> r \<in> set (rooms (snd (add e name cn u now st)))
              \<and> presences (snd (add e name cn u now st)) =
                  presences st @
                    [\<lparr>presence_id = presence_seq st, presence_room = room_id r,
                      presence_channel_name = cn, presence_user = authed_user u,
                      presence_last_seen = now\<rparr>]
              \<and> trace (snd (add e name cn u now st)) =
                  trace st @
                    [GroupAdd name cn,
                     PresenceChanged
                       \<lparr>ev_room = r,
                        ev_added = Some \<lparr>presence_id = presence_seq st, presence_room = room_id r,
                                         presence_channel_name = cn,
                                         presence_user = authed_user u,
                                         presence_last_seen = now\<rparr>,
                        ev_removed = None, ev_bulk_change = False\<rparr>]))"
proof (intro conjI ballI impI)
  fix r p
  assume "r \<in> set (rooms st)" "p \<in> set (presences st)"
    "room_channel_name r = name \<and> presence_room p = room_id r
       \<and> presence_channel_name p = cn \<and> presence_user p = authed_user u"
  then show "add e name cn u now st = (Inr r, st)"
    using add_existing [OF assms] by blast
next
  assume none: "\<forall>r \<in> set (rooms st). \<forall>p \<in> set (presences st).
              \<not> (room_channel_name r = name \<and> presence_room p = room_id r
                  \<and> presence_channel_name p = cn)"
  show "\<exists>r. room_channel_name r = name
              \<and> r \<in> set (rooms (snd (add e name cn u now st)))
              \<and> presences (snd (add e name cn u now st)) =
                  presences st @
                    [\<lparr>presence_id = presence_seq st, presence_room = room_id r,
                      presence_channel_name = cn, presence_user = authed_user u,
                      presence_last_seen = now\<rparr>]
              \<and> trace (snd (add e name cn u now st)) =
                  trace st @
                    [GroupAdd name cn,
                     PresenceChanged
                       \<lparr>ev_room = r,
                        ev_added = Some \<lparr>presence_id = presence_seq st, presence_room = room_id r,
                                         presence_channel_name = cn,
                                         presence_user = authed_user u,
                                         presence_last_seen = now\<rparr>,
                        ev_removed = None, ev_bulk_change = False\<rparr>]"
  proof (cases "\<exists>r \<in> set (rooms st). room_channel_name r = name")
    case True
    then obtain r where r: "r \<in> set (rooms st)" "room_channel_name r = name" by blast
    have "\<forall>p \<in> set (presences st).
            \<not> (presence_room p = room_id r \<and> presence_channel_name p = cn)"
      using none r by blast
    from add_new_in_room [OF assms r this, of e u now] r
    show ?thesis by (intro exI [of _ r]) simp
  next
    case False
    then have "\<forall>r \<in> set (rooms st). room_channel_name r \<noteq> name" by blast
    from add_new_room [OF assms this, of e cn u now]
    show ?thesis
      by (intro exI [of _ "\<lparr>room_id = room_seq st, room_channel_name = name\<rparr>"]) simp
  qed
qed

lemma example_state_constraints: "constraints example_state"
  by (simp add: constraints_def unique_together_def example_state_def lobby_def hall_def)

theorem join_once_witness:
  "constraints example_state
   \<and> add example_env ''lobby'' ''c1'' (Some (User 7)) 50000000 example_state
       = (Inr lobby, example_state)
   \<and> (\<exists>r. room_channel_name r = ''lobby''
         \<and> r \<in> set (rooms (snd (add example_env ''lobby'' ''c3'' None 50000000 example_state)))
         \<and> presences (snd (add example_env ''lobby'' ''c3'' None 50000000 example_state)) =
             presences example_state @
               [\<lparr>presence_id = presence_seq example_state, presence_room = room_id r,
                 presence_channel_name = ''c3'', presence_user = authed_user None,
                 presence_last_seen = 50000000\<rparr>]
         \<and> trace (snd (add example_env ''lobby'' ''c3'' None 50000000 example_state)) =
             trace example_state @
               [GroupAdd ''lobby'' ''c3'',
                PresenceChanged
                  \<lparr>ev_room = r,
                   ev_added = Some \<lparr>presence_id = presence_seq example_state,
                                    presence_room = room_id r,
                                    presence_channel_name = ''c3'',
                                    presence_user = authed_user None,
                                    presence_last_seen = 50000000\<rparr>,
                   ev_removed = None, ev_bulk_change = False\<rparr>])"
proof -
  note c = example_state_constraints
  note old = join_once [OF c, of "''lobby''" "''c1''" "Some (User 7)" example_env 50000000,
      THEN conjunct1]
  note new = join_once [OF c, of "''lobby''" "''c3''" None example_env 50000000,
      THEN conjunct2]
  have r: "lobby \<in> set (rooms example_state)"
    by (simp add: example_state_def)
  have p: "\<lparr>presence_id = 1, presence_room = 1, presence_channel_name = ''c1'',
            presence_user = Some 7, presence_last_seen = 39000000\<rparr>
            \<in> set (presences example_state)"
    by (simp add: example_state_def)
  have m: "room_channel_name lobby = ''lobby''
     \<and> presence_room \<lparr>presence_id = 1, presence_room = 1, presence_channel_name = ''c1'',
            presence_user = Some 7, presence_last_seen = 39000000\<rparr> = room_id lobby
     \<and> presence_channel_name \<lparr>presence_id = 1, presence_room = 1,
            presence_channel_name = ''c1'',
            presence_user = Some 7, presence_last_seen = 39000000\<rparr> = ''c1''
     \<and> presence_user \<lparr>presence_id = 1, presence_room = 1, presence_channel_name = ''c1'',
            presence_user = Some 7, presence_last_seen = 39000000\<rparr>
         = authed_user (Some (User 7))"
    by (simp add: lobby_def authed_user_def)
  have a: "add example_env ''lobby'' ''c1'' (Some (User 7)) 50000000 example_state
       = (Inr lobby, example_state)"
    using old r p m by blast
  have none: "\<forall>r \<in> set (rooms example_state). \<forall>p \<in> set (presences example_state).
              \<not> (room_channel_name r = ''lobby'' \<and> presence_room p = room_id r
                  \<and> presence_channel_name p = ''c3'')"
    by (simp add: example_state_def)
  show ?thesis using c a new none by blast
qed

text \<open>
  C10.  In a state that satisfies the database constraints and holds a presence row for
  (room, channel name) whose user differs from the one the call resolves to,
  \<^verbatim>\<open>RoomManager.add\<close> raises \<^verbatim>\<open>IntegrityError\<close>: the lookup on (room, channel name,
  user) finds nothing, the insert violates \<^verbatim>\<open>unique_together\<close>, and the second lookup
  finds nothing either.  The state, with its rows and its trace, is unchanged.
\<close>

theorem join_other_identity_raises:
  assumes "constraints st" and "r \<in> set (rooms st)" and "room_channel_name r = name"
    and "q \<in> set (presences st)" and "presence_room q = room_id r"
    and "presence_channel_name q = cn" and "presence_user q \<noteq> authed_user u"
  shows "add e name cn u now st = (Inl IntegrityError, st)"
  using assms by (rule add_conflict)

theorem join_other_identity_raises_witness:
  "add example_env ''lobby'' ''c1'' None 50000000 example_state
     = (Inl IntegrityError, example_state)
   \<and> add example_env ''lobby'' ''c2'' (Some (User 7)) 50000000 example_state
     = (Inl IntegrityError, example_state)"
proof -
  have r: "lobby \<in> set (rooms example_state)" "room_channel_name lobby = ''lobby''"
    by (simp_all add: example_state_def lobby_def)
  have q1: "\<lparr>presence_id = 1, presence_room = 1, presence_channel_name = ''c1'',
            presence_user = Some 7, presence_last_seen = 39000000\<rparr>
            \<in> set (presences example_state)"
    by (simp add: example_state_def)
  have q2: "\<lparr>presence_id = 2, presence_room = 1, presence_channel_name = ''c2'',
            presence_user = None, presence_last_seen = 41000000\<rparr>
            \<in> set (presences example_state)"
    by (simp add: example_state_def)
  have a: "add example_env ''lobby'' ''c1'' None 50000000 example_state
     = (Inl IntegrityError, example_state)"
    by (rule join_other_identity_raises [OF example_state_constraints r q1])
       (simp_all add: lobby_def authed_user_def)
  have b: "add example_env ''lobby'' ''c2'' (Some (User 7)) 50000000 example_state
     = (Inl IntegrityError, example_state)"
    by (rule join_other_identity_raises [OF example_state_constraints r q2])
       (simp_all add: lobby_def authed_user_def)
  show ?thesis using a b by blast
qed

section \<open>Leave\<close>

text \<open>
  C2.  In a state that satisfies the database constraints, \<^verbatim>\<open>RoomManager.remove\<close> run a
  second time on the same room name and channel name returns normally and leaves the state
  of the first run as it is: nothing deleted, no \<^verbatim>\<open>group_discard\<close>, no signal.  For a
  room name that is not stored, or a room without a row for the channel name, the call
  returns normally and changes nothing.  When the row is there, it is deleted and the trace
  grows by the \<^verbatim>\<open>group_discard\<close> and the signal with \<^verbatim>\<open>removed\<close>.
\<close>

theorem leave_twice:
  assumes "constraints st"
  shows "remove e name cn (snd (remove e name cn st)) = (Inr (), snd (remove e name cn st))
     \<and> ((\<forall>r \<in> set (rooms st). room_channel_name r \<noteq> name) \<longrightarrow>
          remove e name cn st = (Inr (), st))
     \<and> ((\<forall>r \<in> set (rooms st). \<forall>p \<in> set (presences st).
            \<not> (room_channel_name r = name \<and> presence_room p = room_id r
                \<and> presence_channel_name p = cn)) \<longrightarrow>
          remove e name cn st = (Inr (), st))
     \<and> (\<forall>r \<in> set (rooms st). \<forall>p \<in> set (presences st).
            room_channel_name r = name \<and> presence_room p = room_id r
            \<and> presence_channel_name p = cn \<longrightarrow>
            presences (snd (remove e name cn st)) =
              filter (\<lambda>q. presence_id q \<noteq> presence_id p) (presences st)
            \<and> trace (snd (remove e name cn st)) =
                trace st @
                  [GroupDiscard name cn,
                   PresenceChanged \<lparr>ev_room = r, ev_added = None, ev_removed = Some p,
                                     ev_bulk_change = False\<rparr>])"
proof (intro conjI ballI impI)
  show "remove e name cn (snd (remove e name cn st)) = (Inr (), snd (remove e name cn st))"
    using assms by (rule remove_twice)
next
  assume "\<forall>r \<in> set (rooms st). room_channel_name r \<noteq> name"
  then show "remove e name cn st = (Inr (), st)" by (rule remove_no_room)
next
  assume "\<forall>r \<in> set (rooms st). \<forall>p \<in> set (presences st).
            \<not> (room_channel_name r = name \<and> presence_room p = room_id r
                \<and> presence_channel_name p = cn)"
  then show "remove e name cn st = (Inr (), st)"
    using remove_absent [OF constraints_names [OF assms]] by blast
next
  fix r p
  assume a: "r \<in> set (rooms st)" "p \<in> set (presences st)"
    "room_channel_name r = name \<and> presence_room p = room_id r \<and> presence_channel_name p = cn"
  have "remove e name cn st =
     (send (receivers e)
        \<lparr>ev_room = r, ev_added = None, ev_removed = Some p, ev_bulk_change = False\<rparr>,
      st\<lparr>presences := filter (\<lambda>q. presence_id q \<noteq> presence_id p) (presences st),
         trace := trace st @
           [GroupDiscard name cn,
            PresenceChanged
              \<lparr>ev_room = r, ev_added = None, ev_removed = Some p, ev_bulk_change = False\<rparr>]\<rparr>)"
    using remove_present [OF assms a(1) _ a(2)] a(3) by blast
  then show "presences (snd (remove e name cn st)) =
              filter (\<lambda>q. presence_id q \<noteq> presence_id p) (presences st)"
    and "trace (snd (remove e name cn st)) =
                trace st @
                  [GroupDiscard name cn,
                   PresenceChanged \<lparr>ev_room = r, ev_added = None, ev_removed = Some p,
                                     ev_bulk_change = False\<rparr>]"
    by simp_all
qed

theorem leave_twice_witness:
  "remove example_env ''lobby'' ''c1'' (snd (remove example_env ''lobby'' ''c1'' example_state))
     = (Inr (), snd (remove example_env ''lobby'' ''c1'' example_state))
   \<and> remove example_env ''nowhere'' ''c1'' example_state = (Inr (), example_state)
   \<and> remove example_env ''hall'' ''c1'' example_state = (Inr (), example_state)
   \<and> presence_channel_name
       (hd (presences (snd (remove example_env ''lobby'' ''c1'' example_state)))) = ''c2''"
proof -
  note t = leave_twice [OF example_state_constraints, of example_env]
  have a: "remove example_env ''lobby'' ''c1''
             (snd (remove example_env ''lobby'' ''c1'' example_state))
     = (Inr (), snd (remove example_env ''lobby'' ''c1'' example_state))"
    using t [of "''lobby''" "''c1''"] by (rule conjunct1)
  have "\<forall>r \<in> set (rooms example_state). room_channel_name r \<noteq> ''nowhere''"
    by (simp add: example_state_def lobby_def hall_def)
  then have b: "remove example_env ''nowhere'' ''c1'' example_state = (Inr (), example_state)"
    using t [of "''nowhere''" "''c1''"] by blast
  have "\<forall>r \<in> set (rooms example_state). \<forall>p \<in> set (presences example_state).
            \<not> (room_channel_name r = ''hall'' \<and> presence_room p = room_id r
                \<and> presence_channel_name p = ''c1'')"
    by (simp add: example_state_def lobby_def hall_def)
  then have c: "remove example_env ''hall'' ''c1'' example_state = (Inr (), example_state)"
    using t [of "''hall''" "''c1''"] by blast
  have r: "lobby \<in> set (rooms example_state)"
    by (simp add: example_state_def)
  have p: "\<lparr>presence_id = 1, presence_room = 1, presence_channel_name = ''c1'',
            presence_user = Some 7, presence_last_seen = 39000000\<rparr>
            \<in> set (presences example_state)"
    by (simp add: example_state_def)
  have m: "room_channel_name lobby = ''lobby''
     \<and> presence_room \<lparr>presence_id = 1, presence_room = 1, presence_channel_name = ''c1'',
            presence_user = Some 7, presence_last_seen = 39000000\<rparr> = room_id lobby
     \<and> presence_channel_name \<lparr>presence_id = 1, presence_room = 1,
            presence_channel_name = ''c1'',
            presence_user = Some 7, presence_last_seen = 39000000\<rparr> = ''c1''"
    by (simp add: lobby_def)
  have "presences (snd (remove example_env ''lobby'' ''c1'' example_state)) =
          filter (\<lambda>q. presence_id q \<noteq> presence_id
             \<lparr>presence_id = 1, presence_room = 1, presence_channel_name = ''c1'',
              presence_user = Some 7, presence_last_seen = 39000000\<rparr>)
            (presences example_state)"
    using t [of "''lobby''" "''c1''"] r p m by blast
  then have d: "presence_channel_name
       (hd (presences (snd (remove example_env ''lobby'' ''c1'' example_state)))) = ''c2''"
    by (simp add: example_state_def)
  show ?thesis using a b c d by blast
qed

section \<open>Members and anonymous count\<close>

lemma get_users_set:
  "set (get_users r st) =
     {k. \<exists>p \<in> set (presences st). presence_room p = room_id r \<and> presence_user p = Some k}"
  by (auto simp: get_users_def split: option.splits)

lemma get_users_distinct: "distinct (get_users r st)"
  by (simp add: get_users_def)

lemma get_anonymous_count_rows:
  "get_anonymous_count r st =
     length (filter (\<lambda>p. presence_room p = room_id r \<and> presence_user p = None) (presences st))"
  by (simp add: get_anonymous_count_def conj_commute)

lemma initial_state_constraints: "constraints initial_state"
  by (simp add: constraints_def unique_together_def initial_state_def)

lemma first_join:
  "snd (add e name c1 None now1 initial_state) =
     \<lparr>rooms = [\<lparr>room_id = 1, room_channel_name = name\<rparr>],
      presences =
        [\<lparr>presence_id = 1, presence_room = 1, presence_channel_name = c1,
          presence_user = None, presence_last_seen = now1\<rparr>],
      room_seq = 2, presence_seq = 2,
      trace =
        [GroupAdd name c1,
         PresenceChanged
           \<lparr>ev_room = \<lparr>room_id = 1, room_channel_name = name\<rparr>,
            ev_added = Some \<lparr>presence_id = 1, presence_room = 1, presence_channel_name = c1,
                             presence_user = None, presence_last_seen = now1\<rparr>,
            ev_removed = None, ev_bulk_change = False\<rparr>]\<rparr>"
proof -
  have none: "\<forall>r \<in> set (rooms initial_state). room_channel_name r \<noteq> name"
    by (simp add: initial_state_def)
  have "snd (add e name c1 None now1 initial_state) =
      initial_state
        \<lparr>rooms := rooms initial_state @
           [\<lparr>room_id = room_seq initial_state, room_channel_name = name\<rparr>],
         room_seq := Suc (room_seq initial_state),
         presences := presences initial_state @
             [\<lparr>presence_id = presence_seq initial_state,
               presence_room = room_seq initial_state,
               presence_channel_name = c1, presence_user = authed_user None,
               presence_last_seen = now1\<rparr>],
         presence_seq := Suc (presence_seq initial_state),
         trace := trace initial_state @
           [GroupAdd name c1,
            PresenceChanged
              \<lparr>ev_room = \<lparr>room_id = room_seq initial_state, room_channel_name = name\<rparr>,
               ev_added = Some \<lparr>presence_id = presence_seq initial_state,
                                presence_room = room_seq initial_state,
                                presence_channel_name = c1, presence_user = authed_user None,
                                presence_last_seen = now1\<rparr>,
               ev_removed = None, ev_bulk_change = False\<rparr>]\<rparr>"
    by (subst add_new_room [OF initial_state_constraints none]) (rule snd_conv)
  also have "\<dots> = \<lparr>rooms = [\<lparr>room_id = 1, room_channel_name = name\<rparr>],
      presences =
        [\<lparr>presence_id = 1, presence_room = 1, presence_channel_name = c1,
          presence_user = None, presence_last_seen = now1\<rparr>],
      room_seq = 2, presence_seq = 2,
      trace =
        [GroupAdd name c1,
         PresenceChanged
           \<lparr>ev_room = \<lparr>room_id = 1, room_channel_name = name\<rparr>,
            ev_added = Some \<lparr>presence_id = 1, presence_room = 1, presence_channel_name = c1,
                             presence_user = None, presence_last_seen = now1\<rparr>,
            ev_removed = None, ev_bulk_change = False\<rparr>]\<rparr>"
    by (simp add: initial_state_def authed_user_def)
  finally show ?thesis .
qed

lemma join_anonymous_then_user:
  assumes "c1 \<noteq> c2"
  shows "snd (add e name c2 (Some (User k)) now2
              (snd (add e name c1 None now1 initial_state))) =
     \<lparr>rooms = [\<lparr>room_id = 1, room_channel_name = name\<rparr>],
      presences =
        [\<lparr>presence_id = 1, presence_room = 1, presence_channel_name = c1,
          presence_user = None, presence_last_seen = now1\<rparr>,
         \<lparr>presence_id = 2, presence_room = 1, presence_channel_name = c2,
          presence_user = Some k, presence_last_seen = now2\<rparr>],
      room_seq = 2, presence_seq = 3,
      trace =
        [GroupAdd name c1,
         PresenceChanged
           \<lparr>ev_room = \<lparr>room_id = 1, room_channel_name = name\<rparr>,
            ev_added = Some \<lparr>presence_id = 1, presence_room = 1, presence_channel_name = c1,
                             presence_user = None, presence_last_seen = now1\<rparr>,
            ev_removed = None, ev_bulk_change = False\<rparr>,
         GroupAdd name c2,
         PresenceChanged
           \<lparr>ev_room = \<lparr>room_id = 1, room_channel_name = name\<rparr>,
            ev_added = Some \<lparr>presence_id = 2, presence_room = 1, presence_channel_name = c2,
                             presence_user = Some k, presence_last_seen = now2\<rparr>,
            ev_removed = None, ev_bulk_change = False\<rparr>]\<rparr>"
proof -
  define r where "r = \<lparr>room_id = 1, room_channel_name = name\<rparr>"
  define st1 where "st1 =
     \<lparr>rooms = [\<lparr>room_id = 1, room_channel_name = name\<rparr>],
      presences =
        [\<lparr>presence_id = 1, presence_room = 1, presence_channel_name = c1,
          presence_user = None, presence_last_seen = now1\<rparr>],
      room_seq = 2, presence_seq = 2,
      trace =
        [GroupAdd name c1,
         PresenceChanged
           \<lparr>ev_room = \<lparr>room_id = 1, room_channel_name = name\<rparr>,
            ev_added = Some \<lparr>presence_id = 1, presence_room = 1, presence_channel_name = c1,
                             presence_user = None, presence_last_seen = now1\<rparr>,
            ev_removed = None, ev_bulk_change = False\<rparr>]\<rparr>"
  have first: "snd (add e name c1 None now1 initial_state) = st1"
    unfolding st1_def by (rule first_join)
  have c: "constraints st1"
    by (simp add: st1_def constraints_def unique_together_def)
  have rin: "r \<in> set (rooms st1)" and rn: "room_channel_name r = name"
    by (simp_all add: st1_def r_def)
  have fresh: "\<forall>p \<in> set (presences st1).
                 \<not> (presence_room p = room_id r \<and> presence_channel_name p = c2)"
    using assms by (simp add: st1_def)
  have "snd (add e name c2 (Some (User k)) now2 st1) =
      st1\<lparr>presences := presences st1 @
             [\<lparr>presence_id = presence_seq st1, presence_room = room_id r,
               presence_channel_name = c2, presence_user = authed_user (Some (User k)),
               presence_last_seen = now2\<rparr>],
         presence_seq := Suc (presence_seq st1),
         trace := trace st1 @
           [GroupAdd name c2,
            PresenceChanged
              \<lparr>ev_room = r,
               ev_added = Some \<lparr>presence_id = presence_seq st1, presence_room = room_id r,
                                presence_channel_name = c2,
                                presence_user = authed_user (Some (User k)),
                                presence_last_seen = now2\<rparr>,
               ev_removed = None, ev_bulk_change = False\<rparr>]\<rparr>"
    by (subst add_new_in_room [OF c rin rn fresh]) (rule snd_conv)
  then show ?thesis
    unfolding first by (simp add: st1_def r_def authed_user_def)
qed

lemma join_unauthenticated_row:
  assumes "constraints st"
    and "\<forall>r \<in> set (rooms st). \<forall>p \<in> set (presences st).
              \<not> (room_channel_name r = name \<and> presence_room p = room_id r
                  \<and> presence_channel_name p = cn)"
    and "u = None \<or> u = Some AnonymousUser"
  shows "presences (snd (add e name cn u now st)) \<noteq> []
         \<and> butlast (presences (snd (add e name cn u now st))) = presences st
         \<and> presence_channel_name (last (presences (snd (add e name cn u now st)))) = cn
         \<and> presence_user (last (presences (snd (add e name cn u now st)))) = None"
proof -
  have au: "authed_user u = None" using assms(3) by (auto simp: authed_user_def)
  show ?thesis
  proof (cases "\<exists>r \<in> set (rooms st). room_channel_name r = name")
    case True
    then obtain r where r: "r \<in> set (rooms st)" "room_channel_name r = name" by blast
    have "\<forall>p \<in> set (presences st).
            \<not> (presence_room p = room_id r \<and> presence_channel_name p = cn)"
      using assms(2) r by blast
    from add_new_in_room [OF assms(1) r this, of e u now] au
    show ?thesis by simp
  next
    case False
    then have "\<forall>r \<in> set (rooms st). room_channel_name r \<noteq> name" by blast
    from add_new_room [OF assms(1) this, of e cn u now] au
    show ?thesis by simp
  qed
qed

text \<open>
  C9.  \<^verbatim>\<open>get_users\<close> returns, without repetition, exactly the users that some presence
  row of the room refers to; rows with a null user contribute nothing.
  \<^verbatim>\<open>get_anonymous_count\<close> is the number of the room's rows with a null user.  Starting
  from the empty database, a join without a user followed by a join of an authenticated
  user on another channel name leaves the room with an anonymous count of 1 (and that one
  user).  A join that creates a row for \<^verbatim>\<open>None\<close> or for an \<^verbatim>\<open>AnonymousUser\<close> stores
  a null user.
\<close>

theorem members_and_anonymous_count:
  "set (get_users r st) =
     {k. \<exists>p \<in> set (presences st). presence_room p = room_id r \<and> presence_user p = Some k}
   \<and> distinct (get_users r st)
   \<and> get_anonymous_count r st =
       length (filter (\<lambda>p. presence_room p = room_id r \<and> presence_user p = None)
                 (presences st))
   \<and> (c1 \<noteq> c2 \<longrightarrow>
        (\<forall>r' \<in> set (rooms (snd (add e name c2 (Some (User k)) now2
                                   (snd (add e name c1 None now1 initial_state))))).
           get_anonymous_count r'
             (snd (add e name c2 (Some (User k)) now2
                    (snd (add e name c1 None now1 initial_state)))) = 1
           \<and> get_users r'
               (snd (add e name c2 (Some (User k)) now2
                      (snd (add e name c1 None now1 initial_state)))) = [k]))
   \<and> (constraints st
        \<and> (\<forall>r \<in> set (rooms st). \<forall>p \<in> set (presences st).
              \<not> (room_channel_name r = name \<and> presence_room p = room_id r
                  \<and> presence_channel_name p = cn))
        \<and> (u = None \<or> u = Some AnonymousUser) \<longrightarrow>
        presences (snd (add e name cn u now st)) \<noteq> []
        \<and> butlast (presences (snd (add e name cn u now st))) = presences st
        \<and> presence_channel_name (last (presences (snd (add e name cn u now st)))) = cn
        \<and> presence_user (last (presences (snd (add e name cn u now st)))) = None)"
proof (intro conjI)
  show "c1 \<noteq> c2 \<longrightarrow>
        (\<forall>r' \<in> set (rooms (snd (add e name c2 (Some (User k)) now2
                                   (snd (add e name c1 None now1 initial_state))))).
           get_anonymous_count r'
             (snd (add e name c2 (Some (User k)) now2
                    (snd (add e name c1 None now1 initial_state)))) = 1
           \<and> get_users r'
               (snd (add e name c2 (Some (User k)) now2
                      (snd (add e name c1 None now1 initial_state)))) = [k])"
  proof
    assume ne: "c1 \<noteq> c2"
    show "\<forall>r' \<in> set (rooms (snd (add e name c2 (Some (User k)) now2
                                   (snd (add e name c1 None now1 initial_state))))).
           get_anonymous_count r'
             (snd (add e name c2 (Some (User k)) now2
                    (snd (add e name c1 None now1 initial_state)))) = 1
           \<and> get_users r'
               (snd (add e name c2 (Some (User k)) now2
                      (snd (add e name c1 None now1 initial_state)))) = [k]"
      unfolding join_anonymous_then_user [OF ne]
      by (simp add: get_anonymous_count_def get_users_def)
  qed
  show "constraints st
        \<and> (\<forall>r \<in> set (rooms st). \<forall>p \<in> set (presences st).
              \<not> (room_channel_name r = name \<and> presence_room p = room_id r
                  \<and> presence_channel_name p = cn))
        \<and> (u = None \<or> u = Some AnonymousUser) \<longrightarrow>
        presences (snd (add e name cn u now st)) \<noteq> []
        \<and> butlast (presences (snd (add e name cn u now st))) = presences st
        \<and> presence_channel_name (last (presences (snd (add e name cn u now st)))) = cn
        \<and> presence_user (last (presences (snd (add e name cn u now st)))) = None"
  proof
    assume a: "constraints st
        \<and> (\<forall>r \<in> set (rooms st). \<forall>p \<in> set (presences st).
              \<not> (room_channel_name r = name \<and> presence_room p = room_id r
                  \<and> presence_channel_name p = cn))
        \<and> (u = None \<or> u = Some AnonymousUser)"
    have 1: "constraints st" using a by (rule conjunct1)
    have 2: "\<forall>r \<in> set (rooms st). \<forall>p \<in> set (presences st).
              \<not> (room_channel_name r = name \<and> presence_room p = room_id r
                  \<and> presence_channel_name p = cn)"
      using a by (rule conjunct2 [THEN conjunct1])
    have 3: "u = None \<or> u = Some AnonymousUser"
      using a by (rule conjunct2 [THEN conjunct2])
    show "presences (snd (add e name cn u now st)) \<noteq> []
        \<and> butlast (presences (snd (add e name cn u now st))) = presences st
        \<and> presence_channel_name (last (presences (snd (add e name cn u now st)))) = cn
        \<and> presence_user (last (presences (snd (add e name cn u now st)))) = None"
      by (rule join_unauthenticated_row [OF 1 2 3])
  qed
qed (simp_all add: get_users_set get_users_distinct get_anonymous_count_rows)

theorem members_and_anonymous_count_witness:
  "set (get_users lobby example_state) = {7}
   \<and> get_anonymous_count lobby example_state = 1
   \<and> get_anonymous_count \<lparr>room_id = 1, room_channel_name = ''lobby''\<rparr>
         (snd (add example_env ''lobby'' ''c2'' (Some (User 7)) 20
                (snd (add example_env ''lobby'' ''c1'' None 10 initial_state)))) = 1
   \<and> presence_user
         (last (presences (snd (add example_env ''hall'' ''c1'' (Some AnonymousUser) 20
                                 example_state)))) = None"
proof -
  note t = members_and_anonymous_count [of lobby example_state "''c1''" "''c2''" example_env
      "''lobby''" 7 20 10 "''c1''" "Some AnonymousUser" 20]
  note u = members_and_anonymous_count [of lobby example_state "''c1''" "''c2''" example_env
      "''hall''" 7 20 10 "''c1''" "Some AnonymousUser" 20]
  have "set (get_users lobby example_state) =
     {k. \<exists>p \<in> set (presences example_state).
           presence_room p = room_id lobby \<and> presence_user p = Some k}"
    using t by (rule conjunct1)
  also have "\<dots> = {7}"
    by (auto simp: example_state_def lobby_def)
  finally have a: "set (get_users lobby example_state) = {7}" .
  have "get_anonymous_count lobby example_state =
       length (filter (\<lambda>p. presence_room p = room_id lobby \<and> presence_user p = None)
                 (presences example_state))"
    using t [THEN conjunct2, THEN conjunct2] by (rule conjunct1)
  then have b: "get_anonymous_count lobby example_state = 1"
    by (simp add: example_state_def lobby_def)
  have ne: "''c1'' \<noteq> ''c2''" by simp
  have rin: "\<lparr>room_id = 1, room_channel_name = ''lobby''\<rparr>
      \<in> set (rooms (snd (add example_env ''lobby'' ''c2'' (Some (User 7)) 20
                (snd (add example_env ''lobby'' ''c1'' None 10 initial_state)))))"
    unfolding join_anonymous_then_user [OF ne] by simp
  note d4 = t [THEN conjunct2, THEN conjunct2, THEN conjunct2, THEN conjunct1, THEN mp, OF ne,
      THEN bspec, OF rin]
  have c: "get_anonymous_count \<lparr>room_id = 1, room_channel_name = ''lobby''\<rparr>
         (snd (add example_env ''lobby'' ''c2'' (Some (User 7)) 20
                (snd (add example_env ''lobby'' ''c1'' None 10 initial_state)))) = 1"
    using d4 by (rule conjunct1)
  have none: "\<forall>r \<in> set (rooms example_state). \<forall>p \<in> set (presences example_state).
              \<not> (room_channel_name r = ''hall'' \<and> presence_room p = room_id r
                  \<and> presence_channel_name p = ''c1'')"
    by (simp add: example_state_def lobby_def hall_def)
  have anon: "Some AnonymousUser = None \<or> Some AnonymousUser = Some AnonymousUser"
    by simp
  note d5 = u [THEN conjunct2, THEN conjunct2, THEN conjunct2, THEN conjunct2, THEN mp,
      OF conjI [OF example_state_constraints conjI [OF none anon]]]
  have d: "presence_user
         (last (presences (snd (add example_env ''hall'' ''c1'' (Some AnonymousUser) 20
                                 example_state)))) = None"
    using d5 by (rule conjunct2 [THEN conjunct2, THEN conjunct2])
  show ?thesis
    by (intro conjI a b c d)
qed

section \<open>Receivers that raise\<close>

lemma send_raises:
  "f \<in> set fs \<Longrightarrow> f ev = Raises \<Longrightarrow> send fs ev = Inl ReceiverError"
proof (induction fs)
  case Nil
  then show ?case by simp
next
  case (Cons g gs)
  show ?case
  proof (cases "g ev")
    case Raises
    then show ?thesis by simp
  next
    case Returns
    then have "f \<in> set gs" using Cons.prems by auto
    then show ?thesis using Cons.IH Cons.prems(2) Returns by simp
  qed
qed

lemma broadcast_changed_state:
  "snd (broadcast_changed e r a b c st) =
     st\<lparr>trace := trace st @
        [PresenceChanged \<lparr>ev_room = r, ev_added = a, ev_removed = b, ev_bulk_change = c\<rparr>]\<rparr>"
  by (simp add: broadcast_changed_def Let_def)

lemma broadcast_changed_raises:
  "f \<in> set (receivers e) \<Longrightarrow> \<forall>ev. f ev = Raises \<Longrightarrow>
   fst (broadcast_changed e r a b c st) = Inl ReceiverError"
  by (simp add: broadcast_changed_def Let_def send_raises)

lemma get_or_create_state:
  "snd (get_or_create P table create st) = st
   \<or> snd (get_or_create P table create st) = snd (create st)"
proof (cases "objects_get P (table st)")
  case (Inr x)
  then show ?thesis by (simp add: get_or_create_def)
next
  case (Inl err)
  show ?thesis
  proof (cases "err = DoesNotExist")
    case False
    then show ?thesis using Inl by (cases err) (simp_all add: get_or_create_def)
  next
    case True
    obtain res st' where c: "create st = (res, st')" by (cases "create st")
    show ?thesis
    proof (cases res)
      case (Inr y)
      then show ?thesis using Inl True c by (simp add: get_or_create_def)
    next
      case (Inl err')
      show ?thesis
      proof (cases "err' = IntegrityError")
        case False
        then show ?thesis
          using \<open>objects_get P (table st) = Inl err\<close> True c Inl
          by (cases err') (simp_all add: get_or_create_def)
      next
        case i: True
        show ?thesis
          using \<open>objects_get P (table st) = Inl err\<close> True c Inl i
          by (simp add: get_or_create_def split: sum.splits error.splits)
      qed
    qed
  qed
qed

lemma room_create_trace: "trace (snd (room_create name st)) = trace st"
  by (simp add: room_create_def Let_def)

lemma presence_create_trace: "trace (snd (presence_create r cn u now st)) = trace st"
  by (simp add: presence_create_def Let_def)

lemma room_get_or_create_trace:
  "trace (snd (get_or_create P rooms (room_create name) st)) = trace st"
  using get_or_create_state [of P rooms "room_create name" st] room_create_trace [of name st]
  by auto

lemma presence_get_or_create_trace:
  "trace (snd (get_or_create P presences (presence_create r cn u now) st)) = trace st"
  using get_or_create_state [of P presences "presence_create r cn u now" st]
    presence_create_trace [of r cn u now st]
  by auto

lemma add_presence_cases:
  obtains (failed) err st1 where
      "get_or_create
         (\<lambda>p. presence_room p = room_id r \<and> presence_channel_name p = cn
              \<and> presence_user p = authed_user u)
         presences (presence_create r cn (authed_user u) now) st = (Inl err, st1)"
      "\<And>e. add_presence e r cn u now st = (Inl err, st1)"
  | (found) p st1 where
      "get_or_create
         (\<lambda>p. presence_room p = room_id r \<and> presence_channel_name p = cn
              \<and> presence_user p = authed_user u)
         presences (presence_create r cn (authed_user u) now) st = (Inr (p, False), st1)"
      "\<And>e. add_presence e r cn u now st = (Inr (), st1)"
  | (created) p st1 where
      "get_or_create
         (\<lambda>p. presence_room p = room_id r \<and> presence_channel_name p = cn
              \<and> presence_user p = authed_user u)
         presences (presence_create r cn (authed_user u) now) st = (Inr (p, True), st1)"
      "\<And>e. add_presence e r cn u now st =
         broadcast_changed e r (Some p) None False (group_add (room_channel_name r) cn st1)"
proof -
  obtain res st1 where g: "get_or_create
         (\<lambda>p. presence_room p = room_id r \<and> presence_channel_name p = cn
              \<and> presence_user p = authed_user u)
         presences (presence_create r cn (authed_user u) now) st = (res, st1)"
    by (cases "get_or_create
         (\<lambda>p. presence_room p = room_id r \<and> presence_channel_name p = cn
              \<and> presence_user p = authed_user u)
         presences (presence_create r cn (authed_user u) now) st")
  show thesis
  proof (cases res)
    case (Inl err)
    show thesis
      by (rule failed [of err st1]) (simp_all add: g Inl add_presence_def)
  next
    case (Inr pc)
    obtain p c where pc: "pc = (p, c)" by (cases pc)
    show thesis
    proof (cases c)
      case True
      show thesis
        by (rule created [of p st1]) (simp_all add: g Inr pc True add_presence_def)
    next
      case False
      show thesis
        by (rule found [of p st1]) (simp_all add: g Inr pc False add_presence_def)
    qed
  qed
qed

lemma add_presence_state:
  "snd (add_presence e r cn u now st) = snd (add_presence e' r cn u now st)"
  by (cases rule: add_presence_cases [of r cn u now st])
     (simp_all add: broadcast_changed_state)

lemma add_presence_raises:
  assumes "f \<in> set (receivers e)" and "\<forall>ev. f ev = Raises"
    and "trace (snd (add_presence e r cn u now st)) \<noteq> trace st"
  shows "fst (add_presence e r cn u now st) = Inl ReceiverError"
proof (cases rule: add_presence_cases [of r cn u now st])
  case (failed err st1)
  have "trace st1 = trace st"
    using presence_get_or_create_trace
      [of "\<lambda>p. presence_room p = room_id r \<and> presence_channel_name p = cn
              \<and> presence_user p = authed_user u" r cn "authed_user u" now st] failed(1)
    by simp
  then show ?thesis using assms(3) failed(2) by simp
next
  case (found p st1)
  have "trace st1 = trace st"
    using presence_get_or_create_trace
      [of "\<lambda>p. presence_room p = room_id r \<and> presence_channel_name p = cn
              \<and> presence_user p = authed_user u" r cn "authed_user u" now st] found(1)
    by simp
  then show ?thesis using assms(3) found(2) by simp
next
  case (created p st1)
  show ?thesis
    using broadcast_changed_raises [OF assms(1,2)] created(2) by simp
qed

lemma add_cases:
  obtains (failed) err st1 where
      "get_or_create (\<lambda>r. room_channel_name r = name) rooms (room_create name) st
         = (Inl err, st1)"
      "\<And>e. add e name cn u now st = (Inl err, st1)"
  | (room) r c st1 where
      "get_or_create (\<lambda>r. room_channel_name r = name) rooms (room_create name) st
         = (Inr (r, c), st1)"
      "\<And>e. snd (add e name cn u now st) = snd (add_presence e r cn u now st1)"
      "\<And>e. fst (add_presence e r cn u now st1) = Inl ReceiverError \<Longrightarrow>
            fst (add e name cn u now st) = Inl ReceiverError"
proof -
  obtain res st1 where g:
    "get_or_create (\<lambda>r. room_channel_name r = name) rooms (room_create name) st = (res, st1)"
    by (cases "get_or_create (\<lambda>r. room_channel_name r = name) rooms (room_create name) st")
  show thesis
  proof (cases res)
    case (Inl err)
    show thesis by (rule failed [of err st1]) (simp_all add: g Inl add_def)
  next
    case (Inr rc)
    obtain r c where rc: "rc = (r, c)" by (cases rc)
    show thesis
    proof (rule room [of r c st1])
      show "get_or_create (\<lambda>r. room_channel_name r = name) rooms (room_create name) st
         = (Inr (r, c), st1)"
        by (simp add: g Inr rc)
      show "snd (add e name cn u now st) = snd (add_presence e r cn u now st1)" for e
        by (simp add: add_def g Inr rc split: prod.splits sum.splits)
      show "fst (add e name cn u now st) = Inl ReceiverError"
        if "fst (add_presence e r cn u now st1) = Inl ReceiverError" for e
        using that by (auto simp add: add_def g Inr rc split: prod.splits sum.splits)
    qed
  qed
qed

lemma add_state:
  "snd (add e name cn u now st) = snd (add e' name cn u now st)"
proof (cases rule: add_cases [of name st cn u now])
  case (failed err st1)
  then show ?thesis by simp
next
  case (room r c st1)
  show ?thesis
    using room(2) [of e] room(2) [of e'] add_presence_state [of e r cn u now st1 e']
    by simp
qed

lemma add_raises:
  assumes "f \<in> set (receivers e)" and "\<forall>ev. f ev = Raises"
    and "trace (snd (add e name cn u now st)) \<noteq> trace st"
  shows "fst (add e name cn u now st) = Inl ReceiverError"
proof (cases rule: add_cases [of name st cn u now])
  case (failed err st1)
  have "trace st1 = trace st"
    using room_get_or_create_trace [of "\<lambda>r. room_channel_name r = name" name st] failed(1)
    by simp
  then show ?thesis using assms(3) failed(2) by simp
next
  case (room r c st1)
  have "trace st1 = trace st"
    using room_get_or_create_trace [of "\<lambda>r. room_channel_name r = name" name st] room(1)
    by simp
  then have "trace (snd (add_presence e r cn u now st1)) \<noteq> trace st1"
    using assms(3) room(2) [of e] by simp
  then have "fst (add_presence e r cn u now st1) = Inl ReceiverError"
    by (rule add_presence_raises [OF assms(1,2)])
  then show ?thesis by (rule room(3))
qed

lemma remove_presence_state:
  "snd (remove_presence e r cn0 p0 st) = snd (remove_presence e' r cn0 p0 st)"
  by (simp add: remove_presence_def broadcast_changed_state
      split: sum.splits error.splits option.splits)

lemma remove_presence_raises:
  assumes "f \<in> set (receivers e)" and "\<forall>ev. f ev = Raises"
    and "trace (snd (remove_presence e r cn0 p0 st)) \<noteq> trace st"
  shows "fst (remove_presence e r cn0 p0 st) = Inl ReceiverError"
  using assms(3) broadcast_changed_raises [OF assms(1,2)]
  by (simp add: remove_presence_def split: sum.splits error.splits option.splits)

lemma remove_state:
  "snd (remove e name cn st) = snd (remove e' name cn st)"
  using remove_presence_state [of e _ "Some cn" None st e']
  by (simp add: remove_def split: sum.splits error.splits)

lemma remove_raises:
  assumes "f \<in> set (receivers e)" and "\<forall>ev. f ev = Raises"
    and "trace (snd (remove e name cn st)) \<noteq> trace st"
  shows "fst (remove e name cn st) = Inl ReceiverError"
  using assms(3) remove_presence_raises [OF assms(1,2), of _ "Some cn" None st]
  by (simp add: remove_def split: sum.splits error.splits)

lemma room_prune_presences_raises:
  assumes "f \<in> set (receivers e)" and "\<forall>ev. f ev = Raises"
    and "trace (snd (room_prune_presences e r age now st)) \<noteq> trace st"
  shows "fst (room_prune_presences e r age now st) = Inl ReceiverError"
  using assms(3) broadcast_changed_raises [OF assms(1,2)]
  by (simp add: room_prune_presences_def Let_def split: if_splits)

lemma leave_all_raises:
  assumes "f \<in> set (receivers e)" and "\<forall>ev. f ev = Raises"
    and "presences_with_room cn st = (p, r) # rest"
  shows "leave_all e cn st = (Inl ReceiverError, snd (remove_presence e' r None (Some p) st))"
proof -
  have "fst (remove_presence e r None (Some p) st) = Inl ReceiverError"
    using broadcast_changed_raises [OF assms(1,2)] by (simp add: remove_presence_def)
  moreover have "snd (remove_presence e r None (Some p) st)
                 = snd (remove_presence e' r None (Some p) st)"
    by (rule remove_presence_state)
  ultimately have "remove_presence e r None (Some p) st
      = (Inl ReceiverError, snd (remove_presence e' r None (Some p) st))"
    by (metis prod.collapse)
  then show ?thesis by (simp add: leave_all_def assms(3))
qed

lemma room_prune_presences_receivers:
  "snd (room_prune_presences e r age now st)
   = snd (room_prune_presences (e\<lparr>receivers := fs\<rparr>) r age now st)"
  by (cases age) (simp_all add: room_prune_presences_def Let_def broadcast_changed_state)

lemma join_lobby_c3:
  "add e ''lobby'' ''c3'' None 50000000 example_state =
     (case send (receivers e)
        \<lparr>ev_room = lobby,
         ev_added = Some \<lparr>presence_id = 3, presence_room = 1,
                          presence_channel_name = ''c3'', presence_user = None,
                          presence_last_seen = 50000000\<rparr>,
         ev_removed = None, ev_bulk_change = False\<rparr> of
        Inl err \<Rightarrow> Inl err
      | Inr x \<Rightarrow> Inr lobby,
      example_state
        \<lparr>presences := presences example_state @
             [\<lparr>presence_id = 3, presence_room = 1,
               presence_channel_name = ''c3'', presence_user = None,
               presence_last_seen = 50000000\<rparr>],
         presence_seq := 4,
         trace :=
           [GroupAdd ''lobby'' ''c3'',
            PresenceChanged
              \<lparr>ev_room = lobby,
               ev_added = Some \<lparr>presence_id = 3, presence_room = 1,
                                presence_channel_name = ''c3'', presence_user = None,
                                presence_last_seen = 50000000\<rparr>,
               ev_removed = None, ev_bulk_change = False\<rparr>]\<rparr>)"
proof -
  have r: "lobby \<in> set (rooms example_state)" "room_channel_name lobby = ''lobby''"
    by (simp_all add: example_state_def lobby_def)
  have fresh: "\<forall>p \<in> set (presences example_state).
                 \<not> (presence_room p = room_id lobby \<and> presence_channel_name p = ''c3'')"
    by (simp add: example_state_def)
  have seq: "presence_seq example_state = 3" "room_id lobby = 1" "trace example_state = []"
    "authed_user None = None"
    by (simp_all add: example_state_def lobby_def authed_user_def)
  show ?thesis
    by (subst add_new_in_room [OF example_state_constraints r fresh]) (simp add: seq)
qed

text \<open>
  The claim C8 as the specification states it fails: with a receiver that raises, the join
  of a new channel name raises \<^verbatim>\<open>ReceiverError\<close> to its caller, although the row is
  stored.
\<close>

theorem listener_failure_fails_join:
  "fst (add failing_env ''lobby'' ''c3'' None 50000000 example_state) = Inl ReceiverError
   \<and> length (presences (snd (add failing_env ''lobby'' ''c3'' None 50000000 example_state)))
       = 3"
proof -
  have "send (receivers failing_env) ev = Inl ReceiverError" for ev
    by (simp add: failing_env_def)
  moreover have "length (presences example_state) = 2"
    by (simp add: example_state_def)
  ultimately show ?thesis
    unfolding join_lobby_c3 by simp
qed

text \<open>
  C8, amended.  \<^verbatim>\<open>broadcast_changed\<close> dispatches with \<^verbatim>\<open>Signal.send\<close>, which lets a
  receiver's exception through.  With a receiver that raises, every join, leave and room
  prune that sends the signal (its trace grows) raises \<^verbatim>\<open>ReceiverError\<close> to its caller;
  the state it leaves, rows and channel-layer calls, is the state it leaves with no
  receiver connected: nothing is rolled back.  \<^verbatim>\<open>leave_all\<close> stops at its first
  presence: that one is removed, the error propagates, the others stay.
\<close>

theorem receiver_error_propagates_without_rollback:
  assumes "f \<in> set (receivers e)" and "\<forall>ev. f ev = Raises"
  shows "(trace (snd (add e name cn u now st)) \<noteq> trace st \<longrightarrow>
            fst (add e name cn u now st) = Inl ReceiverError)
     \<and> snd (add e name cn u now st) = snd (add (e\<lparr>receivers := []\<rparr>) name cn u now st)
     \<and> (trace (snd (remove e name cn st)) \<noteq> trace st \<longrightarrow>
            fst (remove e name cn st) = Inl ReceiverError)
     \<and> snd (remove e name cn st) = snd (remove (e\<lparr>receivers := []\<rparr>) name cn st)
     \<and> (trace (snd (room_prune_presences e r age now st)) \<noteq> trace st \<longrightarrow>
            fst (room_prune_presences e r age now st) = Inl ReceiverError)
     \<and> snd (room_prune_presences e r age now st)
         = snd (room_prune_presences (e\<lparr>receivers := []\<rparr>) r age now st)
     \<and> (\<forall>p r' rest. presences_with_room cn st = (p, r') # rest \<longrightarrow>
            leave_all e cn st =
              (Inl ReceiverError,
               snd (remove_presence (e\<lparr>receivers := []\<rparr>) r' None (Some p) st)))"
proof (intro conjI allI impI)
  show "fst (add e name cn u now st) = Inl ReceiverError"
    if "trace (snd (add e name cn u now st)) \<noteq> trace st"
    using assms that by (rule add_raises)
  show "snd (add e name cn u now st) = snd (add (e\<lparr>receivers := []\<rparr>) name cn u now st)"
    by (rule add_state)
  show "fst (remove e name cn st) = Inl ReceiverError"
    if "trace (snd (remove e name cn st)) \<noteq> trace st"
    using assms that by (rule remove_raises)
  show "snd (remove e name cn st) = snd (remove (e\<lparr>receivers := []\<rparr>) name cn st)"
    by (rule remove_state)
  show "fst (room_prune_presences e r age now st) = Inl ReceiverError"
    if "trace (snd (room_prune_presences e r age now st)) \<noteq> trace st"
    using assms that by (rule room_prune_presences_raises)
  show "snd (room_prune_presences e r age now st)
         = snd (room_prune_presences (e\<lparr>receivers := []\<rparr>) r age now st)"
    by (rule room_prune_presences_receivers)
  show "leave_all e cn st =
              (Inl ReceiverError,
               snd (remove_presence (e\<lparr>receivers := []\<rparr>) r' None (Some p) st))"
    if "presences_with_room cn st = (p, r') # rest" for p r' rest
    using assms that by (rule leave_all_raises)
qed

theorem receiver_error_propagates_without_rollback_witness:
  "fst (add failing_env ''lobby'' ''c3'' None 50000000 example_state) = Inl ReceiverError
   \<and> snd (add failing_env ''lobby'' ''c3'' None 50000000 example_state)
       = snd (add (failing_env\<lparr>receivers := []\<rparr>) ''lobby'' ''c3'' None 50000000
                example_state)
   \<and> presences (snd (add failing_env ''lobby'' ''c3'' None 50000000 example_state))
       = presences example_state @
           [\<lparr>presence_id = 3, presence_room = 1,
             presence_channel_name = ''c3'', presence_user = None,
             presence_last_seen = 50000000\<rparr>]"
proof -
  have f: "(\<lambda>ev. Raises) \<in> set (receivers failing_env)"
    by (simp add: failing_env_def)
  have always: "\<forall>ev. (\<lambda>ev. Raises) ev = Raises" by simp
  note t = receiver_error_propagates_without_rollback [OF f always,
      where name = "''lobby''" and cn = "''c3''" and u = None and now = 50000000
        and st = example_state and r = lobby and age = None]
  have changed: "trace (snd (add failing_env ''lobby'' ''c3'' None 50000000 example_state))
                 \<noteq> trace example_state"
    unfolding join_lobby_c3 by (simp add: example_state_def)
  have a: "fst (add failing_env ''lobby'' ''c3'' None 50000000 example_state)
           = Inl ReceiverError"
    using t [THEN conjunct1] changed by (rule mp)
  have b: "snd (add failing_env ''lobby'' ''c3'' None 50000000 example_state)
       = snd (add (failing_env\<lparr>receivers := []\<rparr>) ''lobby'' ''c3'' None 50000000
                example_state)"
    using t [THEN conjunct2] by (rule conjunct1)
  have c: "presences (snd (add failing_env ''lobby'' ''c3'' None 50000000 example_state))
       = presences example_state @
           [\<lparr>presence_id = 3, presence_room = 1,
             presence_channel_name = ''c3'', presence_user = None,
             presence_last_seen = 50000000\<rparr>]"
    unfolding b by (simp add: join_lobby_c3)
  show ?thesis by (intro conjI a b c)
qed

end
